theory Spec2Isabelle
  imports Main "HOL-Library.Char_ord" "HOL-Library.List_Lexorder" "HOL-Library.AList"
begin

section \<open>JavaScript strings\<close>

text \<open>
  A JavaScript string is a sequence of UTF-16 code units. The model covers the strings
  whose code units are all below 256 (Latin-1): a \<^typ>\<open>char\<close> stands for the code unit
  \<open>of_char c\<close>. On this range \<open>toLowerCase\<close> maps code unit to code unit, and the
  regular-expression classes \<open>\s\<close>, \<open>\w\<close>, \<open>\d\<close> and \<open>[a-zA-Z_]\<close> (also under the
  \<open>i\<close> flag, which folds case only between ASCII letters here) are the sets below.
\<close>

definition code :: "char \<Rightarrow> nat" where
  "code c = of_char c"

definition isUpperAscii :: "char \<Rightarrow> bool" where
  "isUpperAscii c = (65 \<le> code c \<and> code c \<le> 90)"

definition isLowerAscii :: "char \<Rightarrow> bool" where
  "isLowerAscii c = (97 \<le> code c \<and> code c \<le> 122)"

definition isDigit :: "char \<Rightarrow> bool" where
  "isDigit c = (48 \<le> code c \<and> code c \<le> 57)"

text \<open>\<open>[a-zA-Z_]\<close> and \<open>[a-zA-Z0-9_]\<close> (the latter is also \<open>\w\<close>).\<close>

definition isIdentStart :: "char \<Rightarrow> bool" where
  "isIdentStart c = (isUpperAscii c \<or> isLowerAscii c \<or> c = CHR ''_'')"

definition isIdentChar :: "char \<Rightarrow> bool" where
  "isIdentChar c = (isIdentStart c \<or> isDigit c)"

text \<open>\<open>\s\<close>, which is also what \<open>trim\<close> strips: TAB, LF, VT, FF, CR, space, NBSP.\<close>

definition isSpace :: "char \<Rightarrow> bool" where
  "isSpace c = ((9 \<le> code c \<and> code c \<le> 13) \<or> code c = 32 \<or> code c = 160)"

text \<open>\<open>String.prototype.toLowerCase\<close> on Latin-1: A-Z and the letters 0xC0-0xDE but 0xD7.\<close>

definition toLowerCaseChar :: "char \<Rightarrow> char" where
  "toLowerCaseChar c =
     (if isUpperAscii c \<or> (192 \<le> code c \<and> code c \<le> 222 \<and> code c \<noteq> 215)
      then char_of (code c + 32) else c)"

definition toLowerCase :: "string \<Rightarrow> string" where
  "toLowerCase s = map toLowerCaseChar s"

text \<open>
  A literal pattern character under the \<open>i\<close> flag: the pattern letters used in this
  program are ASCII letters, and an ASCII letter matches itself in either case only.
\<close>

definition asciiLower :: "char \<Rightarrow> char" where
  "asciiLower c = (if isUpperAscii c then char_of (code c + 32) else c)"

text \<open>\<open>matchKeyword kw s\<close>: the lower-case keyword \<open>kw\<close> matches, ignoring case, at the
  start of \<open>s\<close>; the result is the rest of \<open>s\<close>.\<close>

fun matchKeyword :: "string \<Rightarrow> string \<Rightarrow> string option" where
  "matchKeyword [] s = Some s"
| "matchKeyword (k # ks) [] = None"
| "matchKeyword (k # ks) (c # cs) = (if asciiLower c = k then matchKeyword ks cs else None)"

fun startsWith :: "string \<Rightarrow> string \<Rightarrow> bool" where
  "startsWith s [] = True"
| "startsWith [] (p # ps) = False"
| "startsWith (c # cs) (p # ps) = (c = p \<and> startsWith cs ps)"

text \<open>\<open>String.prototype.includes\<close>.\<close>

fun includes_str :: "string \<Rightarrow> string \<Rightarrow> bool" where
  "includes_str [] t = startsWith [] t"
| "includes_str (c # cs) t = (startsWith (c # cs) t \<or> includes_str cs t)"

text \<open>\<open>String.prototype.trim\<close>.\<close>

definition trim :: "string \<Rightarrow> string" where
  "trim s = rev (dropWhile isSpace (rev (dropWhile isSpace s)))"

text \<open>\<open>s.split(".")\<close>: the pieces between the dots, at least one piece.\<close>

fun splitDot :: "string \<Rightarrow> string list" where
  "splitDot [] = [[]]"
| "splitDot (c # cs) =
     (if c = CHR ''.'' then [] # splitDot cs
      else (case splitDot cs of p # ps \<Rightarrow> (c # p) # ps | [] \<Rightarrow> [[c]]))"

section \<open>Table references in a query (\<open>adapters/postgres.ts\<close>, \<open>adapters/clickhouse.ts\<close>)\<close>

text \<open>
  Both adapters find table references with one regular expression, applied with
  \<open>matchAll\<close> (flags \<open>gi\<close>):
  \<^verbatim>\<open>(?:FROM|JOIN)\s+(?:ONLY\s+)?(?:([a-zA-Z_][a-zA-Z0-9_]*)\.)?(["']?[a-zA-Z_][a-zA-Z0-9_]*["']?)\<close>
  for Postgres, and for ClickHouse the same with \<open>FINAL\<close> for \<open>ONLY\<close>, a backtick among the
  quotes and the qualifier not captured. The functions below follow the backtracking
  matcher piece by piece.
\<close>

definition isQuotePg :: "char \<Rightarrow> bool" where
  "isQuotePg c = (c = CHR 0x22 \<or> c = CHR 0x27)"

definition isQuoteCh :: "char \<Rightarrow> bool" where
  "isQuoteCh c = (c = CHR 0x22 \<or> c = CHR 0x27 \<or> c = CHR 0x60)"

text \<open>An optional single character of a class, taken when present (greedy).\<close>

definition optChar :: "(char \<Rightarrow> bool) \<Rightarrow> string \<Rightarrow> string \<times> string" where
  "optChar P s = (case s of c # cs \<Rightarrow> if P c then ([c], cs) else ([], s) | [] \<Rightarrow> ([], s))"

text \<open>
  The last group, \<open>[quote]?[a-zA-Z_][a-zA-Z0-9_]*[quote]?\<close>: the text it matches and the rest.
  Nothing follows the group, so each greedy choice stands; giving the opening quote back
  cannot help, because a quote is not a letter.
\<close>

definition matchTable :: "(char \<Rightarrow> bool) \<Rightarrow> string \<Rightarrow> (string \<times> string) option" where
  "matchTable isQ s =
     (case optChar isQ s of (q1, s1) \<Rightarrow>
        (case s1 of
           [] \<Rightarrow> None
         | c # cs \<Rightarrow>
             if isIdentStart c then
               (case optChar isQ (dropWhile isIdentChar cs) of (q2, s2) \<Rightarrow>
                  Some (q1 @ c # takeWhile isIdentChar cs @ q2, s2))
             else None))"

text \<open>
  The qualifier group \<open>(?:([a-zA-Z_][a-zA-Z0-9_]*)\.)?\<close> when it takes part: an identifier,
  which must run up to the dot, and the dot.
\<close>

definition matchQualifier :: "string \<Rightarrow> (string \<times> string) option" where
  "matchQualifier s =
     (case s of
        [] \<Rightarrow> None
      | c # cs \<Rightarrow>
          if isIdentStart c then
            (case dropWhile isIdentChar cs of
               d # ds \<Rightarrow> if d = CHR ''.'' then Some (c # takeWhile isIdentChar cs, ds) else None
             | [] \<Rightarrow> None)
          else None)"

text \<open>
  Qualifier and table: first with the qualifier group, and when the table does not
  follow the dot, again without it. The result is (qualifier, table text, rest).
\<close>

definition matchQualifiedTable ::
  "(char \<Rightarrow> bool) \<Rightarrow> string \<Rightarrow> (string option \<times> string \<times> string) option" where
  "matchQualifiedTable isQ s =
     (let plain = (case matchTable isQ s of
                     Some (t, r) \<Rightarrow> Some (None, t, r)
                   | None \<Rightarrow> None)
      in case matchQualifier s of
           Some (q, s1) \<Rightarrow>
             (case matchTable isQ s1 of
                Some (t, r) \<Rightarrow> Some (Some q, t, r)
              | None \<Rightarrow> plain)
         | None \<Rightarrow> plain)"

text \<open>\<open>\s+\<close> before something that cannot start with white space: the whole run, at least one.\<close>

definition matchSpaces :: "string \<Rightarrow> string option" where
  "matchSpaces s =
     (case s of
        [] \<Rightarrow> None
      | c # cs \<Rightarrow> if isSpace c then Some (dropWhile isSpace cs) else None)"

text \<open>The keyword alternative \<open>(?:FROM|JOIN)\<close> followed by \<open>\s+\<close>.\<close>

definition matchIntroducer :: "string \<Rightarrow> string option" where
  "matchIntroducer s =
     (case (case matchKeyword ''from'' s of
              Some r \<Rightarrow> Some r
            | None \<Rightarrow> matchKeyword ''join'' s) of
        None \<Rightarrow> None
      | Some s1 \<Rightarrow> matchSpaces s1)"

text \<open>The branch in which the optional group \<open>(?:ONLY\s+)?\<close> (\<open>FINAL\<close>) takes part.\<close>

definition matchModified ::
  "string \<Rightarrow> (char \<Rightarrow> bool) \<Rightarrow> string \<Rightarrow> (string option \<times> string \<times> string) option" where
  "matchModified modifier isQ s =
     (case matchKeyword modifier s of
        None \<Rightarrow> None
      | Some s1 \<Rightarrow>
          (case matchSpaces s1 of
             None \<Rightarrow> None
           | Some s2 \<Rightarrow> matchQualifiedTable isQ s2))"

text \<open>
  One attempt at a position: the introducer, then the rest first with the optional
  group and, when that fails, without it.
\<close>

definition matchHere ::
  "string \<Rightarrow> (char \<Rightarrow> bool) \<Rightarrow> string \<Rightarrow> (string option \<times> string \<times> string) option" where
  "matchHere modifier isQ s =
     (case matchIntroducer s of
        None \<Rightarrow> None
      | Some s1 \<Rightarrow>
          (case matchModified modifier isQ s1 of
             Some m \<Rightarrow> Some m
           | None \<Rightarrow> matchQualifiedTable isQ s1))"

lemma matchKeyword_length:
  "matchKeyword kw s = Some r \<Longrightarrow> length r + length kw = length s"
  by (induction kw s rule: matchKeyword.induct) (auto split: if_splits)

lemma matchSpaces_length: "matchSpaces s = Some r \<Longrightarrow> length r < length s"
  by (auto simp: matchSpaces_def less_Suc_eq_le length_dropWhile_le split: list.splits if_splits)

lemma optChar_length: "optChar P s = (q, r) \<Longrightarrow> length r \<le> length s"
  by (auto simp: optChar_def split: list.splits if_splits)

lemma matchTable_length: "matchTable isQ s = Some (t, r) \<Longrightarrow> length r < length s"
proof -
  assume m: "matchTable isQ s = Some (t, r)"
  obtain q1 s1 where o1: "optChar isQ s = (q1, s1)" by (cases "optChar isQ s")
  with m obtain c cs where s1: "s1 = c # cs" and st: "isIdentStart c"
    by (auto simp: matchTable_def split: list.splits if_splits)
  obtain q2 s2 where o2: "optChar isQ (dropWhile isIdentChar cs) = (q2, s2)"
    by (cases "optChar isQ (dropWhile isIdentChar cs)")
  from m o1 s1 st o2 have "r = s2" by (simp add: matchTable_def)
  moreover have "length s2 \<le> length cs"
    using optChar_length [OF o2] length_dropWhile_le [of isIdentChar cs] by simp
  moreover have "length s1 \<le> length s" using optChar_length [OF o1] .
  ultimately show ?thesis using s1 by simp
qed

lemma matchQualifier_length: "matchQualifier s = Some (q, r) \<Longrightarrow> length r < length s"
proof -
  assume m: "matchQualifier s = Some (q, r)"
  then obtain c cs where s: "s = c # cs"
    by (auto simp: matchQualifier_def split: list.splits)
  with m have "dropWhile isIdentChar cs = CHR ''.'' # r"
    by (auto simp: matchQualifier_def split: list.splits if_splits)
  then have "length r < length cs"
    using length_dropWhile_le [of isIdentChar cs] by simp
  with s show ?thesis by simp
qed

lemma matchQualifiedTable_length:
  "matchQualifiedTable isQ s = Some (q, t, r) \<Longrightarrow> length r < length s"
  by (auto simp: matchQualifiedTable_def Let_def split: option.splits
      dest!: matchTable_length matchQualifier_length)

lemma matchIntroducer_length: "matchIntroducer s = Some r \<Longrightarrow> length r < length s"
  by (auto simp: matchIntroducer_def split: option.splits
      dest!: matchKeyword_length matchSpaces_length)

lemma matchModified_length:
  "matchModified modifier isQ s = Some (q, t, r) \<Longrightarrow> length r < length s"
  by (auto simp: matchModified_def split: option.splits
      dest!: matchKeyword_length matchSpaces_length matchQualifiedTable_length)

lemma matchHere_length:
  "matchHere modifier isQ s = Some (q, t, r) \<Longrightarrow> length r < length s"
  by (auto simp: matchHere_def split: option.splits
      dest!: matchIntroducer_length matchModified_length matchQualifiedTable_length)

text \<open>
  \<open>sql.matchAll(tablePattern)\<close>: the matches from left to right, each search starting
  where the previous match ended. Each match is the pair of capture groups.
\<close>

function matchAllTables ::
  "string \<Rightarrow> (char \<Rightarrow> bool) \<Rightarrow> string \<Rightarrow> (string option \<times> string) list" where
  "matchAllTables modifier isQ [] = []"
| "matchAllTables modifier isQ (c # cs) =
     (case matchHere modifier isQ (c # cs) of
        None \<Rightarrow> matchAllTables modifier isQ cs
      | Some (q, t, r) \<Rightarrow> (q, t) # matchAllTables modifier isQ r)"
  by pat_completeness auto
termination
  by (relation "measure (\<lambda>(m, isQ, s). length s)") (auto dest: matchHere_length)

section \<open>Values\<close>

text \<open>
  \<open>ParamValue\<close> of \<open>core/query-engine.ts\<close>. No modelled function looks inside a number,
  so an integer payload stands for it. A \<open>ParamRecord\<close> is an object used as a dictionary:
  an association list with distinct keys, where assignment replaces the value of a
  present key in place and appends a new key.
\<close>

datatype ParamValue =
    PString string
  | PNumber int
  | PBoolean bool
  | PStrings "string list"
  | PNumbers "int list"

type_synonym ParamRecord = "(string \<times> ParamValue) list"

text \<open>
  What a property read \<open>params[k]\<close> can give: an own value, \<open>undefined\<close>, or a member
  inherited from \<open>Object.prototype\<close> (the records are plain objects).
\<close>

datatype unknown = Value ParamValue | Undefined | Inherited string

definition objectPrototypeKeys :: "string list" where
  "objectPrototypeKeys =
     [''constructor'', ''hasOwnProperty'', ''isPrototypeOf'', ''propertyIsEnumerable'',
      ''toLocaleString'', ''toString'', ''valueOf'', ''__defineGetter__'',
      ''__defineSetter__'', ''__lookupGetter__'', ''__lookupSetter__'', ''__proto__'']"

definition getProp :: "ParamRecord \<Rightarrow> string \<Rightarrow> unknown" where
  "getProp params k =
     (case map_of params k of
        Some v \<Rightarrow> Value v
      | None \<Rightarrow> if k \<in> set objectPrototypeKeys then Inherited k else Undefined)"

text \<open>The operator \<open>k in params\<close>.\<close>

definition hasProp :: "ParamRecord \<Rightarrow> string \<Rightarrow> bool" where
  "hasProp params k = (map_of params k \<noteq> None \<or> k \<in> set objectPrototypeKeys)"

text \<open>The values a result row can hold (\<open>unknown\<close> in the source), by their \<open>typeof\<close>.\<close>

datatype jsval =
    JNull
  | JUndefined
  | JBoolean bool
  | JNumber int
  | JString string
  | JBigInt int
  | JSymbol
  | JFunction
  | JArray "jsval list"
  | JObject "(string \<times> jsval) list"

type_synonym row = "(string \<times> jsval) list"

text \<open>
  A thrown value: an \<open>Error\<close> with its message, or any other value, given by what
  \<open>String(...)\<close> makes of it.
\<close>

datatype thrown = Error string | NonError string

record DatabaseExecutionResult =
  res_fields :: "string list"
  res_rows :: "row list"

section \<open>The Postgres adapter (\<open>adapters/postgres.ts\<close>)\<close>

record NormalizedTable =
  schema :: string
  table :: string

text \<open>
  The result of the client function; each field descriptor \<open>{ name }\<close> is given by its name.
\<close>

record PostgresQueryResult =
  pg_rows :: "row list"
  pg_fields :: "string list"

text \<open>
  The client function is supplied by the application and talks to the database: it takes
  the state \<open>'w\<close> of the outside world and returns the new one, with either the rejection
  or the result.
\<close>

type_synonym 'w PostgresClientFn =
  "'w \<Rightarrow> string \<Rightarrow> unknown list option \<Rightarrow> 'w \<times> (thrown + PostgresQueryResult)"

record PostgresAdapterOptions =
  opt_database :: "string option"
  opt_defaultSchema :: "string option"
  opt_kind :: "string option"
  opt_allowedTables :: "string list option"

record 'w PostgresAdapter =
  clientFn :: "'w PostgresClientFn"
  databaseName :: string
  defaultSchema :: string
  kind :: string
  allowedTables :: "NormalizedTable list option"

definition tableKey :: "string \<Rightarrow> string \<Rightarrow> string" where
  "tableKey s t = s @ ''.'' @ t"

definition isSafeIdentifier :: "string \<Rightarrow> bool" where
  "isSafeIdentifier v =
     (case v of [] \<Rightarrow> False | c # cs \<Rightarrow> isIdentStart c \<and> list_all isIdentChar cs)"

text \<open>
  One round of the loop of \<open>normalizeTableFilter\<close>, on the pair (\<open>seen\<close>, \<open>normalized\<close>).
  \<open>parts.pop()\<close> twice: the last piece is the table, the one before it the schema.
\<close>

definition normalizeStep ::
  "string \<Rightarrow> string \<Rightarrow> string list \<times> NormalizedTable list \<Rightarrow> string list \<times> NormalizedTable list"
  where
  "normalizeStep dflt raw st =
     (case st of (seen, normalized) \<Rightarrow>
        if raw = [] \<or> trim raw = [] then st
        else
          (case rev (splitDot (trim raw)) of
             [] \<Rightarrow> st
           | t # before \<Rightarrow>
               (let s = (case before of [] \<Rightarrow> dflt | s' # _ \<Rightarrow> s') in
                if \<not> isSafeIdentifier s \<or> \<not> isSafeIdentifier t then st
                else if tableKey s t \<in> set seen then st
                else (seen @ [tableKey s t], normalized @ [\<lparr>schema = s, table = t\<rparr>]))))"

definition normalizeTableFilter :: "string list \<Rightarrow> string \<Rightarrow> NormalizedTable list" where
  "normalizeTableFilter tables dflt = snd (fold (normalizeStep dflt) tables ([], []))"

text \<open>The constructor. An array, also the empty one, is truthy.\<close>

definition PostgresAdapter_new ::
  "'w PostgresClientFn \<Rightarrow> PostgresAdapterOptions \<Rightarrow> 'w PostgresAdapter" where
  "PostgresAdapter_new fn options =
     (let dflt = (case opt_defaultSchema options of Some s \<Rightarrow> s | None \<Rightarrow> ''public'') in
      \<lparr> clientFn = fn,
        databaseName = (case opt_database options of Some d \<Rightarrow> d | None \<Rightarrow> ''postgres''),
        defaultSchema = dflt,
        kind = (case opt_kind options of Some k \<Rightarrow> k | None \<Rightarrow> ''postgres''),
        allowedTables = map_option (\<lambda>ts. normalizeTableFilter ts dflt) (opt_allowedTables options) \<rparr>)"

text \<open>\<open>match[2].replace(/['"]/g, "")\<close> and its ClickHouse counterpart.\<close>

definition stripQuotes :: "(char \<Rightarrow> bool) \<Rightarrow> string \<Rightarrow> string" where
  "stripQuotes isQ t = filter (\<lambda>c. \<not> isQ c) t"

definition notAllowedMessage :: "string \<Rightarrow> string" where
  "notAllowedMessage ref =
     ''Query references table '' @ [CHR 0x22] @ ref @ [CHR 0x22] @
     '' which is not in the allowed tables list''"

text \<open>
  The table references of a query as the Postgres adapter reads them: schema (the
  default one when the match has none) and table without quotes. A match whose table
  is empty after stripping is passed over.
\<close>

definition postgres_tableRefs :: "string \<Rightarrow> string \<Rightarrow> (string \<times> string) list" where
  "postgres_tableRefs dflt sql =
     filter (\<lambda>(s, t). t \<noteq> [])
       (map (\<lambda>(q, t). (case q of Some s \<Rightarrow> s | None \<Rightarrow> dflt, stripQuotes isQuotePg t))
          (matchAllTables ''only'' isQuotePg sql))"

text \<open>The \<open>for\<close> loop over the matches: the first reference outside the set throws.\<close>

fun postgres_checkRefs :: "string list \<Rightarrow> (string \<times> string) list \<Rightarrow> thrown + unit" where
  "postgres_checkRefs allowedSet [] = Inr ()"
| "postgres_checkRefs allowedSet ((s, t) # refs) =
     (if tableKey s t \<notin> set allowedSet
      then Inl (Error (notAllowedMessage (s @ ''.'' @ t)))
      else postgres_checkRefs allowedSet refs)"

definition postgres_validateQueryTables :: "'w PostgresAdapter \<Rightarrow> string \<Rightarrow> thrown + unit" where
  "postgres_validateQueryTables a sql =
     (case allowedTables a of
        None \<Rightarrow> Inr ()
      | Some ts \<Rightarrow>
          if ts = [] then Inr ()
          else postgres_checkRefs (map (\<lambda>t. tableKey (schema t) (table t)) ts)
                 (postgres_tableRefs (defaultSchema a) sql))"

subsection \<open>Named to positional parameters\<close>

text \<open>\<open>/^\d+$/\<close>, \<open>Number.parseInt(k, 10)\<close> on such a key, and \<open>String(n)\<close>. Exact arithmetic
  stands for the doubles: the model is the program for keys below \<open>2^53\<close>; above it
  \<open>Number.parseInt\<close> rounds to a double, which the model does not follow.\<close>

definition isNumericKey :: "string \<Rightarrow> bool" where
  "isNumericKey k = (k \<noteq> [] \<and> list_all isDigit k)"

definition parseInt10 :: "string \<Rightarrow> nat" where
  "parseInt10 k = foldl (\<lambda>n c. 10 * n + (code c - 48)) 0 k"

fun String_of_nat :: "nat \<Rightarrow> string" where
  "String_of_nat n =
     (if n < 10 then [char_of (48 + n)]
      else String_of_nat (n div 10) @ [char_of (48 + n mod 10)])"

text \<open>\<open>val.match(/^<([a-zA-Z0-9_]+)>$/)\<close>: the name between the angle brackets.\<close>

definition placeholderName :: "string \<Rightarrow> string option" where
  "placeholderName v =
     (case v of
        [] \<Rightarrow> None
      | c # cs \<Rightarrow>
          if c = CHR ''<'' \<and> cs \<noteq> [] \<and> last cs = CHR ''>'' \<and> butlast cs \<noteq> []
             \<and> list_all isIdentChar (butlast cs)
          then Some (butlast cs) else None)"

definition resolvePlaceholder :: "ParamRecord \<Rightarrow> unknown \<Rightarrow> unknown" where
  "resolvePlaceholder params val =
     (case val of
        Value (PString v) \<Rightarrow>
          (case placeholderName v of
             Some namedKey \<Rightarrow> if hasProp params namedKey then getProp params namedKey else val
           | None \<Rightarrow> val)
      | _ \<Rightarrow> val)"

definition convertNamedToPositionalParams :: "ParamRecord \<Rightarrow> unknown list" where
  "convertNamedToPositionalParams params =
     (let numericKeys = sort (map parseInt10 (filter isNumericKey (map fst params)));
          namedKeys = sort (filter (\<lambda>k. \<not> isNumericKey k) (map fst params))
      in map (\<lambda>key. resolvePlaceholder params (getProp params (String_of_nat key))) numericKeys
         @ map (getProp params) namedKeys)"

subsection \<open>\<open>execute\<close> and \<open>validate\<close>\<close>

text \<open>The second half of \<open>execute\<close>: the parameters made positional, the call, the result.\<close>

definition postgres_callClient ::
  "'w PostgresAdapter \<Rightarrow> string \<Rightarrow> ParamRecord option \<Rightarrow> 'w
     \<Rightarrow> 'w \<times> (thrown + DatabaseExecutionResult)" where
  "postgres_callClient a sql params w =
     (case clientFn a w sql (map_option convertNamedToPositionalParams params) of
        (w', Inl e) \<Rightarrow> (w', Inl e)
      | (w', Inr result) \<Rightarrow>
          (w', Inr \<lparr> res_fields = pg_fields result, res_rows = pg_rows result \<rparr>))"

definition postgres_execute ::
  "'w PostgresAdapter \<Rightarrow> string \<Rightarrow> ParamRecord option \<Rightarrow> 'w
     \<Rightarrow> 'w \<times> (thrown + DatabaseExecutionResult)" where
  "postgres_execute a sql params w =
     (case (if allowedTables a \<noteq> None then postgres_validateQueryTables a sql else Inr ()) of
        Inl e \<Rightarrow> (w, Inl e)
      | Inr _ \<Rightarrow> postgres_callClient a sql params w)"

definition postgres_validate ::
  "'w PostgresAdapter \<Rightarrow> string \<Rightarrow> ParamRecord option \<Rightarrow> 'w \<Rightarrow> 'w \<times> (thrown + unit)" where
  "postgres_validate a sql params w =
     (case clientFn a w (''EXPLAIN '' @ sql) (map_option convertNamedToPositionalParams params) of
        (w', Inl e) \<Rightarrow> (w', Inl e)
      | (w', Inr _) \<Rightarrow> (w', Inr ()))"

section \<open>The ClickHouse adapter (\<open>adapters/clickhouse.ts\<close>)\<close>

text \<open>
  The request the client function receives. \<open>clickhouse_settings\<close> is never set by the
  modelled calls and is left out.
\<close>

record QueryParams =
  query :: string
  format :: "string option"
  query_params :: "ParamRecord option"

text \<open>
  What the client function resolves to: a row array, an object with a \<open>json\<close> method
  (given by what awaiting \<open>json()\<close> yields), or anything else.
\<close>

datatype payload = PayloadArray "row list" | PayloadData "row list" | PayloadOther

datatype ClickHouseResult =
    ResultArray "row list"
  | ResultJson "thrown + payload"
  | ResultOther

type_synonym 'w ClickHouseClientFn =
  "'w \<Rightarrow> QueryParams \<Rightarrow> 'w \<times> (thrown + ClickHouseResult)"

record ClickHouseAdapterOptions =
  ch_opt_database :: "string option"
  ch_opt_defaultFormat :: "string option"
  ch_opt_kind :: "string option"
  ch_opt_allowedTables :: "string list option"

record 'w ClickHouseAdapter =
  ch_clientFn :: "'w ClickHouseClientFn"
  ch_databaseName :: string
  ch_defaultFormat :: string
  ch_kind :: string
  ch_allowedTables :: "string list option"

definition clickhouse_normalizeStep ::
  "string \<Rightarrow> string list \<times> string list \<Rightarrow> string list \<times> string list" where
  "clickhouse_normalizeStep raw st =
     (case st of (seen, normalized) \<Rightarrow>
        if raw = [] \<or> trim raw = [] then st
        else
          (let tableName = last (splitDot (trim raw)) in
           if tableName = [] \<or> tableName \<in> set seen then st
           else (seen @ [tableName], normalized @ [tableName])))"

definition clickhouse_normalizeTableFilter :: "string list \<Rightarrow> string list" where
  "clickhouse_normalizeTableFilter tables = snd (fold clickhouse_normalizeStep tables ([], []))"

definition ClickHouseAdapter_new ::
  "'w ClickHouseClientFn \<Rightarrow> ClickHouseAdapterOptions \<Rightarrow> 'w ClickHouseAdapter" where
  "ClickHouseAdapter_new fn options =
     \<lparr> ch_clientFn = fn,
       ch_databaseName = (case ch_opt_database options of Some d \<Rightarrow> d | None \<Rightarrow> ''default''),
       ch_defaultFormat =
         (case ch_opt_defaultFormat options of Some f \<Rightarrow> f | None \<Rightarrow> ''JSONEachRow''),
       ch_kind = (case ch_opt_kind options of Some k \<Rightarrow> k | None \<Rightarrow> ''clickhouse''),
       ch_allowedTables = map_option clickhouse_normalizeTableFilter (ch_opt_allowedTables options) \<rparr>"

text \<open>The table references as the ClickHouse adapter reads them: the bare names.\<close>

definition clickhouse_tableRefs :: "string \<Rightarrow> string list" where
  "clickhouse_tableRefs sql =
     filter (\<lambda>t. t \<noteq> [])
       (map (\<lambda>(q, t). stripQuotes isQuoteCh t) (matchAllTables ''final'' isQuoteCh sql))"

fun clickhouse_checkRefs :: "string list \<Rightarrow> string list \<Rightarrow> thrown + unit" where
  "clickhouse_checkRefs allowedSet [] = Inr ()"
| "clickhouse_checkRefs allowedSet (t # refs) =
     (if t \<notin> set allowedSet
      then Inl (Error (notAllowedMessage t))
      else clickhouse_checkRefs allowedSet refs)"

definition clickhouse_validateQueryTables ::
  "'w ClickHouseAdapter \<Rightarrow> string \<Rightarrow> thrown + unit" where
  "clickhouse_validateQueryTables a sql =
     (case ch_allowedTables a of
        None \<Rightarrow> Inr ()
      | Some ts \<Rightarrow>
          if ts = [] then Inr ()
          else clickhouse_checkRefs ts (clickhouse_tableRefs sql))"

definition normalizePayload :: "payload \<Rightarrow> row list" where
  "normalizePayload p =
     (case p of PayloadArray rs \<Rightarrow> rs | PayloadData rs \<Rightarrow> rs | PayloadOther \<Rightarrow> [])"

definition extractRows :: "ClickHouseResult \<Rightarrow> thrown + row list" where
  "extractRows r =
     (case r of
        ResultArray rs \<Rightarrow> Inr rs
      | ResultJson (Inl e) \<Rightarrow> Inl e
      | ResultJson (Inr p) \<Rightarrow> Inr (normalizePayload p)
      | ResultOther \<Rightarrow> Inr [])"

text \<open>The private method \<open>query\<close>, with the options \<open>format\<close> and \<open>params\<close>.\<close>

definition clickhouse_query ::
  "'w ClickHouseAdapter \<Rightarrow> string \<Rightarrow> string option \<Rightarrow> ParamRecord option \<Rightarrow> 'w
     \<Rightarrow> 'w \<times> (thrown + row list)" where
  "clickhouse_query a sql fmt params w =
     (case ch_clientFn a w
             \<lparr> query = sql,
               format = Some (case fmt of Some f \<Rightarrow> f | None \<Rightarrow> ch_defaultFormat a),
               query_params = params \<rparr> of
        (w', Inl e) \<Rightarrow> (w', Inl e)
      | (w', Inr r) \<Rightarrow> (w', extractRows r))"

text \<open>The second half of \<open>execute\<close>: the query, and the fields read off the first row.\<close>

definition clickhouse_callClient ::
  "'w ClickHouseAdapter \<Rightarrow> string \<Rightarrow> ParamRecord option \<Rightarrow> 'w
     \<Rightarrow> 'w \<times> (thrown + DatabaseExecutionResult)" where
  "clickhouse_callClient a sql params w =
     (case clickhouse_query a sql (Some (ch_defaultFormat a)) params w of
        (w', Inl e) \<Rightarrow> (w', Inl e)
      | (w', Inr rs) \<Rightarrow>
          (w', Inr \<lparr> res_fields = (case rs of [] \<Rightarrow> [] | r # _ \<Rightarrow> map fst r),
                     res_rows = rs \<rparr>))"

definition clickhouse_execute ::
  "'w ClickHouseAdapter \<Rightarrow> string \<Rightarrow> ParamRecord option \<Rightarrow> 'w
     \<Rightarrow> 'w \<times> (thrown + DatabaseExecutionResult)" where
  "clickhouse_execute a sql params w =
     (case (if ch_allowedTables a \<noteq> None then clickhouse_validateQueryTables a sql
            else Inr ()) of
        Inl e \<Rightarrow> (w, Inl e)
      | Inr _ \<Rightarrow> clickhouse_callClient a sql params w)"

definition clickhouse_validate ::
  "'w ClickHouseAdapter \<Rightarrow> string \<Rightarrow> ParamRecord option \<Rightarrow> 'w \<Rightarrow> 'w \<times> (thrown + unit)" where
  "clickhouse_validate a sql params w =
     (case clickhouse_query a (''EXPLAIN '' @ sql) (Some (ch_defaultFormat a)) params w of
        (w', Inl e) \<Rightarrow> (w', Inl e)
      | (w', Inr _) \<Rightarrow> (w', Inr ()))"

section \<open>The query engine (\<open>core/query-engine.ts\<close>)\<close>

datatype DatabaseDialect = Clickhouse | Postgres | Mysql

record DatabaseMetadata =
  name :: string
  dialect :: DatabaseDialect
  description :: "string option"
  tags :: "string list option"
  tenantFieldName :: "string option"
  tenantFieldType :: "string option"
  enforceTenantIsolation :: "bool option"

text \<open>
  The interface \<open>DatabaseAdapter\<close> (\<open>adapters/types.ts\<close>), with the methods the engine
  calls, and the two implementations seen through it.
\<close>

record 'w DatabaseAdapter =
  execute :: "string \<Rightarrow> ParamRecord option \<Rightarrow> 'w \<Rightarrow> 'w \<times> (thrown + DatabaseExecutionResult)"
  validate :: "string \<Rightarrow> ParamRecord option \<Rightarrow> 'w \<Rightarrow> 'w \<times> (thrown + unit)"
  getDialect :: DatabaseDialect

definition postgresAdapter :: "'w PostgresAdapter \<Rightarrow> 'w DatabaseAdapter" where
  "postgresAdapter a =
     \<lparr> execute = postgres_execute a, validate = postgres_validate a, getDialect = Postgres \<rparr>"

definition clickhouseAdapter :: "'w ClickHouseAdapter \<Rightarrow> 'w DatabaseAdapter" where
  "clickhouseAdapter a =
     \<lparr> execute = clickhouse_execute a, validate = clickhouse_validate a,
       getDialect = Clickhouse \<rparr>"

text \<open>
  The two \<open>Map\<close>s are association lists in insertion order: \<open>Map.set\<close> replaces the value
  of a present key and appends a new one, which is \<^const>\<open>AList.update\<close>.
\<close>

record 'w QueryEngine =
  databases :: "(string \<times> 'w DatabaseAdapter) list"
  databaseMetadata :: "(string \<times> DatabaseMetadata) list"
  defaultDatabase :: "string option"

definition QueryEngine_new :: "'w QueryEngine" where
  "QueryEngine_new = \<lparr> databases = [], databaseMetadata = [], defaultDatabase = None \<rparr>"

text \<open>Truthiness of an optional string: \<open>undefined\<close> and the empty string are falsy.\<close>

definition truthy :: "string option \<Rightarrow> bool" where
  "truthy s = (case s of None \<Rightarrow> False | Some v \<Rightarrow> v \<noteq> [])"

definition attachDatabase ::
  "string \<Rightarrow> 'w DatabaseAdapter \<Rightarrow> DatabaseMetadata \<Rightarrow> 'w QueryEngine \<Rightarrow> 'w QueryEngine" where
  "attachDatabase n adapter metadata qe =
     qe \<lparr> databases := AList.update n adapter (databases qe),
          databaseMetadata := AList.update n metadata (databaseMetadata qe),
          defaultDatabase :=
            (if \<not> truthy (defaultDatabase qe) then Some n else defaultDatabase qe) \<rparr>"

fun joinComma :: "string list \<Rightarrow> string" where
  "joinComma [] = []"
| "joinComma [x] = x"
| "joinComma (x # y # ys) = x @ '', '' @ joinComma (y # ys)"

definition getDatabase :: "string option \<Rightarrow> 'w QueryEngine \<Rightarrow> thrown + 'w DatabaseAdapter" where
  "getDatabase n qe =
     (let dbName = (case n of Some v \<Rightarrow> Some v | None \<Rightarrow> defaultDatabase qe) in
      if \<not> truthy dbName then Inl (Error ''No database attached.'')
      else
        (case map_of (databases qe) (the dbName) of
           None \<Rightarrow>
             Inl (Error (''Database '' @ [CHR 0x27] @ the dbName @ [CHR 0x27]
                         @ '' not found. Attached: '' @ joinComma (map fst (databases qe))))
         | Some adapter \<Rightarrow> Inr adapter))"

definition getDatabaseMetadata :: "string option \<Rightarrow> 'w QueryEngine \<Rightarrow> DatabaseMetadata option" where
  "getDatabaseMetadata n qe =
     (let dbName = (case n of Some v \<Rightarrow> Some v | None \<Rightarrow> defaultDatabase qe) in
      if \<not> truthy dbName then None else map_of (databaseMetadata qe) (the dbName))"

definition getDefaultDatabase :: "'w QueryEngine \<Rightarrow> string option" where
  "getDefaultDatabase qe = defaultDatabase qe"

subsection \<open>Tenant isolation\<close>

text \<open>
  \<open>\b\<close> between two neighbouring positions (\<open>None\<close> is the edge of the string): exactly
  one side is a word character.
\<close>

definition isWord :: "char option \<Rightarrow> bool" where
  "isWord c = (case c of None \<Rightarrow> False | Some x \<Rightarrow> isIdentChar x)"

definition wordBoundary :: "char option \<Rightarrow> char option \<Rightarrow> bool" where
  "wordBoundary a b = (isWord a \<noteq> isWord b)"

definition first :: "string \<Rightarrow> char option" where
  "first s = (case s of [] \<Rightarrow> None | c # _ \<Rightarrow> Some c)"

text \<open>\<open>/\bwhere\b/i\<close> tried at one position, \<open>prev\<close> being the character before it.\<close>

definition matchWhere :: "char option \<Rightarrow> string \<Rightarrow> string option" where
  "matchWhere prev s =
     (if wordBoundary prev (first s) then
        (case matchKeyword ''where'' s of
           None \<Rightarrow> None
         | Some r \<Rightarrow> if wordBoundary (first (drop 4 s)) (first r) then Some r else None)
      else None)"

text \<open>The leftmost match: the text before it, the match, the text after it.\<close>

fun searchWhere :: "char option \<Rightarrow> string \<Rightarrow> (string \<times> string \<times> string) option" where
  "searchWhere prev [] = None"
| "searchWhere prev (c # cs) =
     (case matchWhere prev (c # cs) of
        Some r \<Rightarrow> Some ([], take 5 (c # cs), r)
      | None \<Rightarrow>
          (case searchWhere (Some c) cs of
             None \<Rightarrow> None
           | Some (b, m, a) \<Rightarrow> Some (c # b, m, a)))"

definition tenantPredicate :: "DatabaseMetadata \<Rightarrow> string \<Rightarrow> string \<Rightarrow> string" where
  "tenantPredicate metadata tenantField tenantId =
     (if dialect metadata = Clickhouse
      then tenantField @ '' = {'' @ tenantField @ '':''
           @ (case tenantFieldType metadata of Some t \<Rightarrow> t | None \<Rightarrow> ''String'') @ ''}''
      else tenantField @ '' = '' @ [CHR 0x27] @ tenantId @ [CHR 0x27])"

text \<open>
  The assignment \<open>params[key] = value\<close> of a string on a plain object. The key \<open>__proto__\<close>, when
  the object has no own property of that name, reaches the setter of \<open>Object.prototype\<close>,
  which ignores a string: no property is created.
\<close>

definition assignString :: "string \<Rightarrow> string \<Rightarrow> ParamRecord \<Rightarrow> ParamRecord" where
  "assignString key v params =
     (if key = ''__proto__'' \<and> map_of params key = None then params
      else AList.update key (PString v) params)"

text \<open>
  \<open>ensureTenantIsolation\<close> assigns to the caller's \<open>params\<close> object; the model returns
  the record with the SQL.
\<close>

definition ensureTenantIsolation ::
  "string \<Rightarrow> ParamRecord \<Rightarrow> DatabaseMetadata \<Rightarrow> string \<Rightarrow> string \<times> ParamRecord" where
  "ensureTenantIsolation sql params metadata tenantId =
     (if \<not> truthy (tenantFieldName metadata) \<or> enforceTenantIsolation metadata = Some False
      then (sql, params)
      else
        (let tenantField = the (tenantFieldName metadata);
             params' = assignString tenantField tenantId params
         in if includes_str (toLowerCase sql) (toLowerCase tenantField) then (sql, params')
            else
              (case searchWhere None sql of
                 Some (b, m, a) \<Rightarrow>
                   (b @ m @ '' '' @ tenantPredicate metadata tenantField tenantId
                      @ '' AND '' @ a, params')
               | None \<Rightarrow>
                   (sql @ '' WHERE '' @ tenantPredicate metadata tenantField tenantId,
                    params'))))"

text \<open>
  \<open>validateAndExecute\<close>. The record it returns beside the outcome is the caller's
  \<open>params\<close> object as the call leaves it.
\<close>

definition validateAndExecute ::
  "'w QueryEngine \<Rightarrow> string \<Rightarrow> ParamRecord \<Rightarrow> string \<Rightarrow> string \<Rightarrow> 'w
     \<Rightarrow> ('w \<times> ParamRecord) \<times> (thrown + DatabaseExecutionResult)" where
  "validateAndExecute qe sql params dbName tenantId w =
     (case getDatabase (Some dbName) qe of
        Inl e \<Rightarrow> ((w, params), Inl e)
      | Inr adapter \<Rightarrow>
          (case (case getDatabaseMetadata (Some dbName) qe of
                   Some metadata \<Rightarrow> ensureTenantIsolation sql params metadata tenantId
                 | None \<Rightarrow> (sql, params)) of
             (finalSql, params') \<Rightarrow>
               (case validate adapter finalSql (Some params') w of
                  (w1, Inl e) \<Rightarrow> ((w1, params'), Inl e)
                | (w1, Inr _) \<Rightarrow>
                    (case execute adapter finalSql (Some params') w1 of
                       (w2, Inl e) \<Rightarrow> ((w2, params'), Inl e)
                     | (w2, Inr result) \<Rightarrow>
                         ((w2, params'),
                          Inr \<lparr> res_fields = res_fields result,
                                res_rows = res_rows result \<rparr>)))))"

section \<open>The route \<open>ask\<close> (\<open>routes/query.ts\<close>)\<close>

subsection \<open>\<open>anonymizeResults\<close>\<close>

definition typeof :: "jsval \<Rightarrow> string" where
  "typeof v =
     (case v of
        JNull \<Rightarrow> ''object''
      | JUndefined \<Rightarrow> ''undefined''
      | JBoolean _ \<Rightarrow> ''boolean''
      | JNumber _ \<Rightarrow> ''number''
      | JString _ \<Rightarrow> ''string''
      | JBigInt _ \<Rightarrow> ''bigint''
      | JSymbol \<Rightarrow> ''symbol''
      | JFunction \<Rightarrow> ''function''
      | JArray _ \<Rightarrow> ''object''
      | JObject _ \<Rightarrow> ''object'')"

text \<open>The three branches of the callback: \<open>null\<close>, an array, anything else.\<close>

definition maskValue :: "jsval \<Rightarrow> string" where
  "maskValue v = (case v of JNull \<Rightarrow> ''null'' | JArray _ \<Rightarrow> ''array'' | _ \<Rightarrow> typeof v)"

text \<open>
  \<open>Object.entries(row).forEach\<close> assigning into \<open>masked = {}\<close>. Assigning a string to
  the key \<open>__proto__\<close> of a plain object creates no property.
\<close>

definition maskRow :: "row \<Rightarrow> (string \<times> string) list" where
  "maskRow r =
     fold (\<lambda>(key, v) masked.
             if key = ''__proto__'' then masked else AList.update key (maskValue v) masked)
          r []"

text \<open>The argument is \<open>None\<close> for \<open>null\<close> or \<open>undefined\<close>, which the guard \<open>!rows?.length\<close> admits.\<close>

definition anonymizeResults :: "row list option \<Rightarrow> (string \<times> string) list list" where
  "anonymizeResults rs =
     (case rs of None \<Rightarrow> [] | Some xs \<Rightarrow> if xs = [] then [] else map maskRow xs)"

subsection \<open>Requests and responses\<close>

datatype ChartType = VegaLite | VizSpec

record AskOptions =
  o_tenantId :: "string option"
  o_userId :: "string option"
  o_scopes :: "string list option"
  o_database :: "string option"
  o_lastError :: "string option"
  o_previousSql :: "string option"
  o_maxRetry :: "int option"
  o_chartMaxRetries :: "int option"
  o_chartType :: "ChartType option"

record TenantSettings =
  ts_tenantFieldName :: "string option"
  ts_tenantFieldType :: "string option"
  ts_enforceTenantIsolation :: "bool option"

text \<open>The body posted to \<open>/query\<close>; a key the spread leaves out is \<open>None\<close>.\<close>

record QueryRequest =
  question :: string
  last_error :: "string option"
  previous_sql :: "string option"
  max_retry :: "int option"
  tenant_settings :: "TenantSettings option"
  database :: "string option"
  req_dialect :: "DatabaseDialect option"

text \<open>What \<open>client.post\<close> gets beside path and body; the abort signal is not modelled.\<close>

record CallContext =
  ctx_tenantId :: string
  ctx_userId :: "string option"
  ctx_scopes :: "string list option"
  ctx_sessionId :: string

record ServerQueryResponse =
  resp_success :: bool
  resp_sql :: string
  resp_params :: "row list option"
  resp_dialect :: string
  resp_database :: "string option"
  resp_table :: "string option"
  resp_rationale :: "string option"
  resp_queryId :: "string option"
  resp_context :: "jsval list option"

text \<open>The body posted to \<open>/chart\<close> and to \<open>/vizspec\<close>.\<close>

record ChartRequest =
  c_question :: string
  c_sql :: string
  c_rationale :: "string option"
  c_fields :: "string list"
  c_rows :: "(string \<times> string) list list"
  c_max_retries :: int
  c_query_id :: "string option"

record ServerChartResponse =
  chart :: "row option"
  chart_notes :: "string option"

record ServerVizSpecResponse =
  spec :: jsval
  viz_notes :: "string option"

text \<open>\<open>ChartEnvelope\<close>: an optional key is absent (\<open>None\<close>) or holds \<open>null\<close> (\<open>Some None\<close>) or a value.\<close>

record ChartEnvelope =
  vegaLiteSpec :: "row option option"
  vizSpec :: "jsval option option"
  specType :: ChartType
  env_notes :: "string option"

record AskResponse =
  a_sql :: string
  a_params :: ParamRecord
  a_paramMetadata :: "row list"
  a_rationale :: "string option"
  a_dialect :: string
  a_queryId :: "string option"
  a_rows :: "row list"
  a_fields :: "string list"
  a_chart :: ChartEnvelope
  a_context :: "jsval list option"
  a_attempts :: int
  a_target_db :: string

text \<open>
  The two collaborators of \<open>ask\<close>, as the objects it is handed: the API client, with
  \<open>post\<close> at the three paths used, and the query engine with the four methods called.
\<close>

record 'w ApiClient =
  getDefaultTenantId :: "string option"
  postQuery :: "QueryRequest \<Rightarrow> CallContext \<Rightarrow> 'w \<Rightarrow> 'w \<times> (thrown + ServerQueryResponse)"
  postChart :: "ChartRequest \<Rightarrow> CallContext \<Rightarrow> 'w \<Rightarrow> 'w \<times> (thrown + ServerChartResponse)"
  postVizspec :: "ChartRequest \<Rightarrow> CallContext \<Rightarrow> 'w \<Rightarrow> 'w \<times> (thrown + ServerVizSpecResponse)"

record 'w Engine =
  engine_getDefaultDatabase :: "string option"
  engine_getDatabaseMetadata :: "string \<Rightarrow> DatabaseMetadata option"
  engine_mapGeneratedParams :: "row list \<Rightarrow> ParamRecord"
  engine_validateAndExecute ::
    "string \<Rightarrow> ParamRecord \<Rightarrow> string \<Rightarrow> string \<Rightarrow> 'w
       \<Rightarrow> ('w \<times> ParamRecord) \<times> (thrown + DatabaseExecutionResult)"

text \<open>A \<^typ>\<open>'w QueryEngine\<close> seen as that object, given its \<open>mapGeneratedParams\<close>.\<close>

definition engineOf :: "(row list \<Rightarrow> ParamRecord) \<Rightarrow> 'w QueryEngine \<Rightarrow> 'w Engine" where
  "engineOf mapParams qe =
     \<lparr> engine_getDefaultDatabase = getDefaultDatabase qe,
       engine_getDatabaseMetadata = (\<lambda>n. getDatabaseMetadata (Some n) qe),
       engine_mapGeneratedParams = mapParams,
       engine_validateAndExecute = validateAndExecute qe \<rparr>"

definition resolveTenantId :: "'w ApiClient \<Rightarrow> string option \<Rightarrow> thrown + string" where
  "resolveTenantId client tid =
     (let resolved = (case tid of Some t \<Rightarrow> Some t | None \<Rightarrow> getDefaultTenantId client) in
      if \<not> truthy resolved
      then Inl (Error ''tenantId is required. Provide it per request or via defaultTenantId option.'')
      else Inr (the resolved))"

text \<open>A conditional spread \<open>...(x ? { key: x } : {})\<close> of an optional string.\<close>

definition whenTruthy :: "string option \<Rightarrow> string option" where
  "whenTruthy x = (if truthy x then x else None)"

definition errorText :: "thrown \<Rightarrow> string" where
  "errorText e = (case e of Error m \<Rightarrow> m | NonError s \<Rightarrow> s)"

text \<open>Step 1 of a round: the body of the post to \<open>/query\<close>.\<close>

definition buildQueryRequest ::
  "'w Engine \<Rightarrow> string \<Rightarrow> AskOptions \<Rightarrow> string option \<Rightarrow> string option \<Rightarrow> QueryRequest" where
  "buildQueryRequest engine q options lastError previousSql =
     (let databaseName =
            (case o_database options of Some d \<Rightarrow> Some d
             | None \<Rightarrow> engine_getDefaultDatabase engine);
          metadata =
            (if truthy databaseName then engine_getDatabaseMetadata engine (the databaseName)
             else None);
          tenantSettings =
            (case metadata of
               None \<Rightarrow> None
             | Some m \<Rightarrow>
                 if truthy (tenantFieldName m)
                 then Some \<lparr> ts_tenantFieldName = tenantFieldName m,
                              ts_tenantFieldType = tenantFieldType m,
                              ts_enforceTenantIsolation = enforceTenantIsolation m \<rparr>
                 else None)
      in \<lparr> question = q,
           last_error = whenTruthy lastError,
           previous_sql = whenTruthy previousSql,
           max_retry = (case o_maxRetry options of
                          None \<Rightarrow> None
                        | Some n \<Rightarrow> if n = 0 then None else Some n),
           tenant_settings = tenantSettings,
           database = whenTruthy databaseName,
           req_dialect = map_option dialect metadata \<rparr>)"

definition chartRequest ::
  "string \<Rightarrow> AskOptions \<Rightarrow> ServerQueryResponse \<Rightarrow> DatabaseExecutionResult \<Rightarrow> ChartRequest" where
  "chartRequest q options queryResponse execution =
     \<lparr> c_question = q,
       c_sql = resp_sql queryResponse,
       c_rationale = resp_rationale queryResponse,
       c_fields = res_fields execution,
       c_rows = anonymizeResults (Some (res_rows execution)),
       c_max_retries = (case o_chartMaxRetries options of Some n \<Rightarrow> n | None \<Rightarrow> 3),
       c_query_id = resp_queryId queryResponse \<rparr>"

text \<open>Step 4, the chart for a result: none for no rows, else one post by chart type.\<close>

definition generateChart ::
  "'w ApiClient \<Rightarrow> string \<Rightarrow> AskOptions \<Rightarrow> CallContext \<Rightarrow> ServerQueryResponse
     \<Rightarrow> DatabaseExecutionResult \<Rightarrow> 'w \<Rightarrow> 'w \<times> (thrown + ChartEnvelope)" where
  "generateChart client q options ctx queryResponse execution w =
     (let chartType = (case o_chartType options of Some t \<Rightarrow> t | None \<Rightarrow> VegaLite) in
      if res_rows execution = [] then
        (w, Inr \<lparr> vegaLiteSpec = None, vizSpec = None, specType = chartType,
                  env_notes = Some ''Query returned no rows.'' \<rparr>)
      else if chartType = VizSpec then
        (case postVizspec client (chartRequest q options queryResponse execution) ctx w of
           (w', Inl e) \<Rightarrow> (w', Inl e)
         | (w', Inr r) \<Rightarrow>
             (w', Inr \<lparr> vegaLiteSpec = None, vizSpec = Some (Some (spec r)),
                        specType = VizSpec, env_notes = viz_notes r \<rparr>))
      else
        (case postChart client (chartRequest q options queryResponse execution) ctx w of
           (w', Inl e) \<Rightarrow> (w', Inl e)
         | (w', Inr r) \<Rightarrow>
             (w', Inr \<lparr> vegaLiteSpec =
                          Some (map_option
                                  (AList.update ''data''
                                     (JObject [(''values'',
                                                JArray (map JObject (res_rows execution)))]))
                                  (chart r)),
                        vizSpec = None, specType = VegaLite, env_notes = chart_notes r \<rparr>)))"

text \<open>
  The \<open>try\<close> block of a round (steps 3 and 4): \<open>Inl\<close> is what the \<open>catch\<close> clause receives.
\<close>

definition tryExecute ::
  "'w ApiClient \<Rightarrow> 'w Engine \<Rightarrow> string \<Rightarrow> AskOptions \<Rightarrow> CallContext \<Rightarrow> int
     \<Rightarrow> ServerQueryResponse \<Rightarrow> string \<Rightarrow> 'w \<Rightarrow> 'w \<times> (thrown + AskResponse)" where
  "tryExecute client engine q options ctx attempt queryResponse dbName w =
     (let paramMetadata = (case resp_params queryResponse of Some ps \<Rightarrow> ps | None \<Rightarrow> []) in
      case engine_validateAndExecute engine (resp_sql queryResponse)
             (engine_mapGeneratedParams engine paramMetadata) dbName (ctx_tenantId ctx) w of
        ((w1, paramValues), Inl e) \<Rightarrow> (w1, Inl e)
      | ((w1, paramValues), Inr execution) \<Rightarrow>
          (case generateChart client q options ctx queryResponse execution w1 of
             (w2, Inl e) \<Rightarrow> (w2, Inl e)
           | (w2, Inr envelope) \<Rightarrow>
               (w2, Inr \<lparr> a_sql = resp_sql queryResponse,
                          a_params = paramValues,
                          a_paramMetadata = paramMetadata,
                          a_rationale = resp_rationale queryResponse,
                          a_dialect = resp_dialect queryResponse,
                          a_queryId = resp_queryId queryResponse,
                          a_rows = res_rows execution,
                          a_fields = res_fields execution,
                          a_chart = envelope,
                          a_context = resp_context queryResponse,
                          a_attempts = attempt + 1,
                          a_target_db = dbName \<rparr>)))"

text \<open>
  Step 1, continued: \<open>queryResponse.database ?? options.database ??
  queryEngine.getDefaultDatabase()\<close>.
\<close>

definition targetDatabase ::
  "'w Engine \<Rightarrow> AskOptions \<Rightarrow> ServerQueryResponse \<Rightarrow> string option" where
  "targetDatabase engine options queryResponse =
     (case resp_database queryResponse of
        Some d \<Rightarrow> Some d
      | None \<Rightarrow>
          (case o_database options of
             Some d \<Rightarrow> Some d
           | None \<Rightarrow> engine_getDefaultDatabase engine))"

text \<open>
  The \<open>while\<close> loop of \<open>ask\<close>, on its variables \<open>attempt\<close>, \<open>lastError\<close> and
  \<open>previousSql\<close>. \<open>maxRetry\<close> is taken as an integer.
\<close>

function askLoop ::
  "'w ApiClient \<Rightarrow> 'w Engine \<Rightarrow> string \<Rightarrow> AskOptions \<Rightarrow> CallContext \<Rightarrow> int
     \<Rightarrow> int \<Rightarrow> string option \<Rightarrow> string option \<Rightarrow> 'w
     \<Rightarrow> 'w \<times> (thrown + AskResponse)" where
  "askLoop client engine q options ctx maxRetry attempt lastError previousSql w =
     (if attempt \<le> maxRetry then
        (case postQuery client (buildQueryRequest engine q options lastError previousSql)
                ctx w of
           (w1, Inl e) \<Rightarrow> (w1, Inl e)
         | (w1, Inr queryResponse) \<Rightarrow>
             (let dbName = targetDatabase engine options queryResponse
              in if \<not> truthy dbName then
                   (w1, Inl (Error ''No database attached. Call attachPostgres/attachClickhouse first.''))
                 else
                   (case tryExecute client engine q options ctx attempt queryResponse
                           (the dbName) w1 of
                      (w2, Inr response) \<Rightarrow> (w2, Inr response)
                    | (w2, Inl error) \<Rightarrow>
                        if attempt + 1 > maxRetry then (w2, Inl error)
                        else
                          askLoop client engine q options ctx maxRetry (attempt + 1)
                            (Some (errorText error)) (Some (resp_sql queryResponse)) w2)))
      else (w, Inl (Error ''Unexpected error in ask retry loop'')))"
  by pat_completeness auto
termination
  by (relation "measure (\<lambda>(client, engine, q, options, ctx, maxRetry, attempt, lastError,
        previousSql, w). nat (maxRetry + 1 - attempt))") auto

declare askLoop.simps [simp del]

text \<open>\<open>ask\<close>; the session identifier, random in the source, is an argument.\<close>

definition ask ::
  "'w ApiClient \<Rightarrow> 'w Engine \<Rightarrow> string \<Rightarrow> AskOptions \<Rightarrow> string \<Rightarrow> 'w
     \<Rightarrow> 'w \<times> (thrown + AskResponse)" where
  "ask client engine q options session w =
     (case resolveTenantId client (o_tenantId options) of
        Inl e \<Rightarrow> (w, Inl e)
      | Inr tid \<Rightarrow>
          askLoop client engine q options
            \<lparr> ctx_tenantId = tid, ctx_userId = o_userId options,
              ctx_scopes = o_scopes options, ctx_sessionId = session \<rparr>
            (case o_maxRetry options of Some n \<Rightarrow> n | None \<Rightarrow> 0)
            0 (o_lastError options) (o_previousSql options) w)"

section \<open>Test doubles and sample inputs\<close>

text \<open>
  The mock client of \<open>adapters/postgres.test.ts\<close>, which resolves to one row \<open>{ id: 1 }\<close>;
  the state of the world is the list of the queries it has received. The ClickHouse
  one is its counterpart.
\<close>

definition recordingPostgresClient :: "(string list) PostgresClientFn" where
  "recordingPostgresClient w q ps =
     (w @ [q], Inr \<lparr> pg_rows = [[(''id'', JNumber 1)]], pg_fields = [''id''] \<rparr>)"

definition recordingClickHouseClient :: "(string list) ClickHouseClientFn" where
  "recordingClickHouseClient w p = (w @ [query p], Inr (ResultArray [[(''id'', JNumber 1)]]))"

definition onlyTables :: "string list \<Rightarrow> PostgresAdapterOptions" where
  "onlyTables ts =
     \<lparr> opt_database = None, opt_defaultSchema = None, opt_kind = None,
       opt_allowedTables = Some ts \<rparr>"

definition onlyTablesCh :: "string list \<Rightarrow> ClickHouseAdapterOptions" where
  "onlyTablesCh ts =
     \<lparr> ch_opt_database = None, ch_opt_defaultFormat = None, ch_opt_kind = None,
       ch_opt_allowedTables = Some ts \<rparr>"

text \<open>The query of the test "should not confuse EXTRACT with MONTH FROM with table FROM clause".\<close>

definition salesByMonth :: string where
  "salesByMonth =
     ''SELECT EXTRACT(MONTH FROM created_at) AS month, SUM(amount)'' @ [CHR 0x0A]
     @ ''FROM sales'' @ [CHR 0x0A] @ ''GROUP BY month''"

text \<open>The metadata of the test "should apply tenant isolation when configured".\<close>

definition relationalTenant :: DatabaseMetadata where
  "relationalTenant =
     \<lparr> name = ''test-db'', dialect = Postgres, description = None, tags = None,
       tenantFieldName = Some ''tenant_id'', tenantFieldType = None,
       enforceTenantIsolation = Some True \<rparr>"

text \<open>Two attached adapters and metadata without tenant settings.\<close>

definition samplePostgres :: "(string list) DatabaseAdapter" where
  "samplePostgres =
     postgresAdapter (PostgresAdapter_new recordingPostgresClient (onlyTables [''users'']))"

definition sampleClickHouse :: "(string list) DatabaseAdapter" where
  "sampleClickHouse =
     clickhouseAdapter (ClickHouseAdapter_new recordingClickHouseClient (onlyTablesCh [''users'']))"

definition untenanted :: "string \<Rightarrow> DatabaseDialect \<Rightarrow> DatabaseMetadata" where
  "untenanted n d =
     \<lparr> name = n, dialect = d, description = None, tags = None, tenantFieldName = None,
       tenantFieldType = None, enforceTenantIsolation = None \<rparr>"

text \<open>Adapters that allow the table \<open>users\<close> only, and an engine with one of them attached.\<close>

definition usersOnly :: "(string list) PostgresAdapter" where
  "usersOnly = PostgresAdapter_new recordingPostgresClient (onlyTables [''public.users''])"


definition usersDb :: "(string list) QueryEngine" where
  "usersDb =
     attachDatabase ''db'' (postgresAdapter usersOnly) (untenanted ''db'' Postgres)
       QueryEngine_new"

text \<open>Metadata with the tenant field \<open>tenant_id\<close>, by dialect and declared type.\<close>

definition tenantOf :: "DatabaseDialect \<Rightarrow> string option \<Rightarrow> DatabaseMetadata" where
  "tenantOf d ty =
     \<lparr> name = ''test-db'', dialect = d, description = None, tags = None,
       tenantFieldName = Some ''tenant_id'', tenantFieldType = ty,
       enforceTenantIsolation = Some True \<rparr>"






section \<open>Notions used to state the properties\<close>






text \<open>
  The keyword \<open>WHERE\<close> at index \<open>i\<close> of a string: the five letters in any case, with no
  word character right before or right after them. \<open>whereOcc\<close> takes the character
  before the string as well.
\<close>

definition whereKeyword :: string where
  "whereKeyword = ''where''"

definition whereOcc :: "char option \<Rightarrow> string \<Rightarrow> nat \<Rightarrow> bool" where
  "whereOcc prev s i =
     (i + 5 \<le> length s \<and> map asciiLower (take 5 (drop i s)) = whereKeyword
      \<and> \<not> isWord (if i = 0 then prev else Some (s ! (i - 1)))
      \<and> (i + 5 = length s \<or> \<not> isIdentChar (s ! (i + 5))))"

definition keywordWhereAt :: "string \<Rightarrow> nat \<Rightarrow> bool" where
  "keywordWhereAt s i = whereOcc None s i"

text \<open>The five tags the specification lists, and all the tags \<open>maskValue\<close> can give.\<close>

definition coarseTags :: "string list" where
  "coarseTags = [''number'', ''string'', ''boolean'', ''array'', ''null'']"

definition maskTags :: "string list" where
  "maskTags = [''null'', ''array'', ''undefined'', ''boolean'', ''number'', ''string'',
               ''bigint'', ''symbol'', ''function'', ''object'']"

text \<open>The values the five tags cover.\<close>

definition plainValue :: "jsval \<Rightarrow> bool" where
  "plainValue v =
     (case v of JNull \<Rightarrow> True | JBoolean _ \<Rightarrow> True | JNumber _ \<Rightarrow> True
      | JString _ \<Rightarrow> True | JArray _ \<Rightarrow> True | _ \<Rightarrow> False)"

text \<open>A row with every value replaced by its tag, entry by entry.\<close>

definition maskEntries :: "row \<Rightarrow> (string \<times> string) list" where
  "maskEntries r = map (\<lambda>(k, v). (k, maskValue v)) (filter (\<lambda>(k, v). k \<noteq> ''__proto__'') r)"

text \<open>A sequence of \<open>attachDatabase\<close> calls.\<close>

definition attachAll ::
  "(string \<times> 'w DatabaseAdapter \<times> DatabaseMetadata) list \<Rightarrow> 'w QueryEngine \<Rightarrow> 'w QueryEngine" where
  "attachAll calls qe = fold (\<lambda>(n, a, m). attachDatabase n a m) calls qe"

section \<open>Properties\<close>

subsection \<open>Auxiliary facts\<close>

lemma startsWith_append: "startsWith (t @ ys) t"
  by (induction t) auto

lemma includes_str_here: "startsWith s t \<Longrightarrow> includes_str s t"
  by (cases s) auto

lemma includes_str_append: "includes_str (xs @ t @ ys) t"
proof (induction xs)
  case Nil
  show ?case using includes_str_here [OF startsWith_append] by simp
next
  case (Cons x xs)
  then show ?case by simp
qed

lemma toLowerCase_append: "toLowerCase (xs @ ys) = toLowerCase xs @ toLowerCase ys"
  by (simp add: toLowerCase_def)

lemma tenantPredicate_starts: "\<exists>rest. tenantPredicate md f tid = f @ rest"
  by (simp add: tenantPredicate_def)

lemma includes_rewritten:
  "includes_str (toLowerCase (pre @ tenantPredicate md f tid @ post)) (toLowerCase f)"
proof -
  obtain rest where "tenantPredicate md f tid = f @ rest"
    using tenantPredicate_starts by blast
  then have "toLowerCase (pre @ tenantPredicate md f tid @ post)
               = toLowerCase pre @ toLowerCase f @ toLowerCase (rest @ post)"
    by (simp add: toLowerCase_append)
  then show ?thesis by (simp only: includes_str_append)
qed

subsection \<open>Table references and the functions that reuse \<open>FROM\<close>\<close>

text \<open>
  Claim C1. The table-reference extraction of both adapters is required not to emit the
  argument of \<open>EXTRACT(unit FROM expr)\<close> and its like as a table reference, so that
  \<open>execute\<close> with an allow-list does not fail because of such an argument. The pattern
  of the source has no notion of an enclosing function call: on the query of the
  repository's own test, with the allow-list of that test, it emits \<open>created_at\<close> as a
  table of the default schema, and \<open>execute\<close> of either adapter throws the allowed-tables
  error naming it, without calling the client. The test expects the call to resolve.
\<close>

theorem extract_argument_taken_for_table:
  "postgres_tableRefs ''public'' salesByMonth
     = [(''public'', ''created_at''), (''public'', ''sales'')]
   \<and> postgres_execute
       (PostgresAdapter_new recordingPostgresClient (onlyTables [''public.sales'']))
       salesByMonth None []
     = ([], Inl (Error (notAllowedMessage ''public.created_at'')))
   \<and> clickhouse_execute
       (ClickHouseAdapter_new recordingClickHouseClient (onlyTablesCh [''sales'']))
       salesByMonth None []
     = ([], Inl (Error (notAllowedMessage ''created_at'')))"
  by code_simp

subsection \<open>The allow-list\<close>



































subsection \<open>Tenant isolation\<close>

lemma matchKeyword_iff:
  "matchKeyword kw s = Some r \<longleftrightarrow>
     length kw \<le> length s \<and> map asciiLower (take (length kw) s) = kw \<and> r = drop (length kw) s"
  by (induction kw s rule: matchKeyword.induct) auto

lemma asciiLower_word: "asciiLower c = k \<Longrightarrow> isLowerAscii k \<Longrightarrow> isIdentChar c"
  by (auto simp: asciiLower_def isIdentChar_def isIdentStart_def split: if_splits)

lemma first_nth: "i < length s \<Longrightarrow> first (drop i s) = Some (s ! i)"
  by (simp add: first_def Cons_nth_drop_Suc [symmetric])

lemma first_end: "length s \<le> i \<Longrightarrow> first (drop i s) = None"
  by (simp add: first_def)

lemma whereKeyword_facts:
  "length whereKeyword = 5" "isLowerAscii (whereKeyword ! 0)" "isLowerAscii (whereKeyword ! 4)"
  by (simp_all add: whereKeyword_def isLowerAscii_def code_def)

lemma where_letters:
  assumes "5 \<le> length s" "map asciiLower (take 5 s) = whereKeyword"
  shows "isIdentChar (s ! 0)" "isIdentChar (s ! 4)"
proof -
  from assms(2) have "map asciiLower (take 5 s) ! 0 = whereKeyword ! 0"
    "map asciiLower (take 5 s) ! 4 = whereKeyword ! 4"
    by simp_all
  with assms(1) have "asciiLower (s ! 0) = whereKeyword ! 0" "asciiLower (s ! 4) = whereKeyword ! 4"
    by simp_all
  then show "isIdentChar (s ! 0)" "isIdentChar (s ! 4)"
    using whereKeyword_facts by (blast intro: asciiLower_word)+
qed

lemma matchWhere_unfold:
  "matchWhere prev s =
     (if wordBoundary prev (first s) then
        (case matchKeyword whereKeyword s of
           None \<Rightarrow> None
         | Some r \<Rightarrow> if wordBoundary (first (drop 4 s)) (first r) then Some r else None)
      else None)"
  unfolding matchWhere_def whereKeyword_def ..

lemma matchWhere_iff: "matchWhere prev s = Some r \<longleftrightarrow> whereOcc prev s 0 \<and> r = drop 5 s"
proof (cases "5 \<le> length s \<and> map asciiLower (take 5 s) = whereKeyword")
  case False
  have "matchKeyword whereKeyword s = None"
  proof (cases "matchKeyword whereKeyword s")
    case None
    then show ?thesis .
  next
    case (Some r)
    then have "length whereKeyword \<le> length s
        \<and> map asciiLower (take (length whereKeyword) s) = whereKeyword"
      using matchKeyword_iff by blast
    with False whereKeyword_facts(1) show ?thesis by simp
  qed
  moreover from False have "\<not> whereOcc prev s 0" by (auto simp: whereOcc_def)
  ultimately show ?thesis by (simp add: matchWhere_unfold)
next
  case True
  then have kw: "matchKeyword whereKeyword s = Some (drop 5 s)"
    using matchKeyword_iff [of whereKeyword s "drop 5 s"] whereKeyword_facts(1) by simp
  from True have w: "isIdentChar (s ! 0)" "isIdentChar (s ! 4)"
    using where_letters [of s] by simp_all
  from True have f0: "first s = Some (s ! 0)" by (cases s) (auto simp: first_def)
  from True have f4: "first (drop 4 s) = Some (s ! 4)" using first_nth [of 4 s] by simp
  have f5: "isWord (first (drop 5 s)) \<longleftrightarrow> \<not> (5 = length s \<or> \<not> isIdentChar (s ! 5))"
  proof (cases "5 = length s")
    case True
    then show ?thesis using first_end [of s 5] by (simp add: isWord_def)
  next
    case False
    with True have "5 < length s" by simp
    then show ?thesis using first_nth [of 5 s] by (simp add: isWord_def)
  qed
  have b0: "wordBoundary prev (first s) \<longleftrightarrow> \<not> isWord prev"
    using w(1) by (simp add: wordBoundary_def f0 isWord_def)
  have b5: "wordBoundary (first (drop 4 s)) (first (drop 5 s))
      \<longleftrightarrow> (5 = length s \<or> \<not> isIdentChar (s ! 5))"
    using w(2) f5 by (simp add: wordBoundary_def f4 isWord_def)
  have occ: "whereOcc prev s 0 \<longleftrightarrow> \<not> isWord prev \<and> (5 = length s \<or> \<not> isIdentChar (s ! 5))"
    using True by (simp add: whereOcc_def)
  show ?thesis
    unfolding matchWhere_unfold kw occ b0 by (auto simp: b5)
qed

lemma whereOcc_Suc: "whereOcc prev (c # cs) (Suc i) = whereOcc (Some c) cs i"
  by (cases i) (simp_all add: whereOcc_def)

lemma searchWhere_None: "searchWhere prev s = None \<Longrightarrow> \<not> whereOcc prev s i"
proof (induction s arbitrary: prev i)
  case Nil
  then show ?case by (simp add: whereOcc_def)
next
  case (Cons c cs)
  from Cons.prems have m: "matchWhere prev (c # cs) = None"
    and rec: "searchWhere (Some c) cs = None"
    by (auto split: option.splits)
  show ?case
  proof (cases i)
    case 0
    with m show ?thesis using matchWhere_iff [of prev "c # cs" "drop 5 (c # cs)"] by simp
  next
    case (Suc j)
    with Cons.IH [OF rec] show ?thesis by (simp add: whereOcc_Suc)
  qed
qed

lemma searchWhere_Some:
  "searchWhere prev s = Some (b, m, a) \<Longrightarrow>
   \<exists>i. whereOcc prev s i \<and> (\<forall>j<i. \<not> whereOcc prev s j)
       \<and> b = take i s \<and> m = take 5 (drop i s) \<and> a = drop (i + 5) s"
proof (induction s arbitrary: prev b m a)
  case Nil
  then show ?case by simp
next
  case (Cons c cs)
  show ?case
  proof (cases "matchWhere prev (c # cs)")
    case (Some r)
    with Cons.prems have "b = []" "m = take 5 (c # cs)" "a = r" by simp_all
    moreover from Some have "whereOcc prev (c # cs) 0" "r = drop 5 (c # cs)"
      using matchWhere_iff [of prev "c # cs" r] by simp_all
    ultimately show ?thesis by (intro exI [of _ 0]) simp
  next
    case None
    with Cons.prems obtain b' where rec: "searchWhere (Some c) cs = Some (b', m, a)"
      and b: "b = c # b'"
      by (auto split: option.splits)
    from Cons.IH [OF rec] obtain i where i: "whereOcc (Some c) cs i"
      "\<forall>j<i. \<not> whereOcc (Some c) cs j" "b' = take i cs" "m = take 5 (drop i cs)"
      "a = drop (i + 5) cs"
      by blast
    from None have no0: "\<not> whereOcc prev (c # cs) 0"
      using matchWhere_iff [of prev "c # cs" "drop 5 (c # cs)"] by simp
    have "\<forall>j<Suc i. \<not> whereOcc prev (c # cs) j"
    proof (intro allI impI)
      fix j assume "j < Suc i"
      then show "\<not> whereOcc prev (c # cs) j"
        using no0 i(2) by (cases j) (simp_all add: whereOcc_Suc)
    qed
    moreover from i have "whereOcc prev (c # cs) (Suc i)" by (simp add: whereOcc_Suc)
    moreover from i b have "b = take (Suc i) (c # cs)" "m = take 5 (drop (Suc i) (c # cs))"
      by simp_all
    moreover have "Suc i + 5 = Suc (i + 5)" by simp
    then have "a = drop (Suc i + 5) (c # cs)" using i(5) by (simp only: drop_Suc_Cons)
    ultimately show ?thesis by blast
  qed
qed

lemma searchWhere_first:
  assumes "whereOcc prev s i" "\<forall>j<i. \<not> whereOcc prev s j"
  shows "searchWhere prev s = Some (take i s, take 5 (drop i s), drop (i + 5) s)"
proof (cases "searchWhere prev s")
  case None
  with assms(1) show ?thesis using searchWhere_None by blast
next
  case (Some bma)
  obtain b m a where bma: "bma = (b, m, a)" by (cases bma)
  from searchWhere_Some [OF Some [unfolded bma]] obtain i' where i':
    "whereOcc prev s i'" "\<forall>j<i'. \<not> whereOcc prev s j"
    "b = take i' s" "m = take 5 (drop i' s)" "a = drop (i' + 5) s"
    by blast
  from assms i'(1,2) have "i' = i" by (meson linorder_neqE_nat)
  with Some bma i' show ?thesis by simp
qed

lemma searchWhere_absent: "(\<forall>i. \<not> whereOcc prev s i) \<Longrightarrow> searchWhere prev s = None"
proof (cases "searchWhere prev s")
  case None
  then show ?thesis .
next
  case (Some bma)
  assume no: "\<forall>i. \<not> whereOcc prev s i"
  obtain b m a where "bma = (b, m, a)" by (cases bma)
  with Some searchWhere_Some [of prev s b m a] no show ?thesis by blast
qed

text \<open>
  Claim C3. With a tenant field name configured (a non-empty string), isolation not
  disabled, and the field name not occurring in the SQL when both are put in lower
  case, the rewrite synthesises the predicate of the dialect: for the columnar dialect
  \<open>field = {field:Type}\<close>, the type being \<open>String\<close> when none is declared, and otherwise
  \<open>field = '<tenantId>'\<close> with the tenant id interpolated. If the keyword \<open>WHERE\<close> occurs
  in the SQL, the predicate is spliced right after its first occurrence, followed by
  \<open>AND\<close>; if it does not occur, \<open>WHERE <predicate>\<close> is appended. The witness has the
  example of the claim.
\<close>

theorem tenant_predicate_placement:
  assumes "tenantFieldName md = Some f" and "f \<noteq> []"
    and "enforceTenantIsolation md \<noteq> Some False"
    and "\<not> includes_str (toLowerCase sql) (toLowerCase f)"
  shows "(dialect md = Clickhouse \<longrightarrow>
            tenantPredicate md f tid
              = f @ '' = {'' @ f @ '':''
                @ (case tenantFieldType md of Some t \<Rightarrow> t | None \<Rightarrow> ''String'') @ ''}'')
       \<and> (dialect md \<noteq> Clickhouse \<longrightarrow>
            tenantPredicate md f tid = f @ '' = '' @ [CHR 0x27] @ tid @ [CHR 0x27])
       \<and> (keywordWhereAt sql i \<and> (\<forall>j<i. \<not> keywordWhereAt sql j) \<longrightarrow>
            fst (ensureTenantIsolation sql ps md tid)
              = take (i + 5) sql @ '' '' @ tenantPredicate md f tid @ '' AND ''
                @ drop (i + 5) sql)
       \<and> ((\<forall>i. \<not> keywordWhereAt sql i) \<longrightarrow>
            fst (ensureTenantIsolation sql ps md tid)
              = sql @ '' WHERE '' @ tenantPredicate md f tid)"
proof -
  from assms have go: "ensureTenantIsolation sql ps md tid =
      (case searchWhere None sql of
         Some (b, m, a) \<Rightarrow>
           (b @ m @ '' '' @ tenantPredicate md f tid @ '' AND '' @ a,
            assignString f tid ps)
       | None \<Rightarrow>
           (sql @ '' WHERE '' @ tenantPredicate md f tid, assignString f tid ps))"
    by (simp add: ensureTenantIsolation_def truthy_def Let_def)
  have spliced: "fst (ensureTenantIsolation sql ps md tid)
      = take (i + 5) sql @ '' '' @ tenantPredicate md f tid @ '' AND '' @ drop (i + 5) sql"
    if "keywordWhereAt sql i" "\<forall>j<i. \<not> keywordWhereAt sql j"
  proof -
    from that have found:
      "searchWhere None sql = Some (take i sql, take 5 (drop i sql), drop (i + 5) sql)"
      by (intro searchWhere_first) (simp_all add: keywordWhereAt_def)
    have "take (i + 5) sql = take i sql @ take 5 (drop i sql)"
      by (simp add: take_add)
    then show ?thesis unfolding go found by simp
  qed
  have appended: "fst (ensureTenantIsolation sql ps md tid)
      = sql @ '' WHERE '' @ tenantPredicate md f tid"
    if "\<forall>i. \<not> keywordWhereAt sql i"
  proof -
    from that have "searchWhere None sql = None"
      by (intro searchWhere_absent) (simp add: keywordWhereAt_def)
    then show ?thesis unfolding go by simp
  qed
  have shape: "(dialect md = Clickhouse \<longrightarrow>
            tenantPredicate md f tid
              = f @ '' = {'' @ f @ '':''
                @ (case tenantFieldType md of Some t \<Rightarrow> t | None \<Rightarrow> ''String'') @ ''}'')
       \<and> (dialect md \<noteq> Clickhouse \<longrightarrow>
            tenantPredicate md f tid = f @ '' = '' @ [CHR 0x27] @ tid @ [CHR 0x27])"
    by (simp add: tenantPredicate_def)
  from shape spliced appended show ?thesis by blast
qed

theorem tenant_predicate_placement_witness:
  "fst (ensureTenantIsolation ''SELECT * FROM users'' [] (tenantOf Postgres None) ''t-123'')
     = ''SELECT * FROM users WHERE tenant_id = '' @ [CHR 0x27] @ ''t-123'' @ [CHR 0x27]
   \<and> fst (ensureTenantIsolation ''SELECT * FROM users'' [] (tenantOf Clickhouse None) ''t-123'')
     = ''SELECT * FROM users WHERE tenant_id = {tenant_id:String}''
   \<and> fst (ensureTenantIsolation ''SELECT * FROM users WHERE active = true'' []
            (tenantOf Postgres None) ''t-123'')
     = ''SELECT * FROM users WHERE tenant_id = '' @ [CHR 0x27] @ ''t-123'' @ [CHR 0x27]
       @ '' AND  active = true''"
proof -
  have absent: "\<not> includes_str (toLowerCase ''SELECT * FROM users'') (toLowerCase ''tenant_id'')"
    "\<not> includes_str (toLowerCase ''SELECT * FROM users WHERE active = true'')
         (toLowerCase ''tenant_id'')"
    by code_simp+
  have none: "\<forall>i. \<not> keywordWhereAt ''SELECT * FROM users'' i"
  proof -
    have "searchWhere None ''SELECT * FROM users'' = None" by code_simp
    then show ?thesis using searchWhere_None by (simp add: keywordWhereAt_def)
  qed
  have at: "keywordWhereAt ''SELECT * FROM users WHERE active = true'' 20
      \<and> (\<forall>j<20. \<not> keywordWhereAt ''SELECT * FROM users WHERE active = true'' j)"
  proof -
    have "searchWhere None ''SELECT * FROM users WHERE active = true''
        = Some (''SELECT * FROM users '', ''WHERE'', '' active = true'')"
      by code_simp
    from searchWhere_Some [OF this] obtain i where i:
      "whereOcc None ''SELECT * FROM users WHERE active = true'' i"
      "\<forall>j<i. \<not> whereOcc None ''SELECT * FROM users WHERE active = true'' j"
      "''SELECT * FROM users '' = take i ''SELECT * FROM users WHERE active = true''"
      by blast
    from i(3) have "length ''SELECT * FROM users ''
        = length (take i ''SELECT * FROM users WHERE active = true'')"
      by (rule arg_cong)
    then have "i = 20" by simp
    with i(1,2) show ?thesis by (simp add: keywordWhereAt_def)
  qed
  have md: "tenantFieldName (tenantOf d ty) = Some ''tenant_id''"
    "enforceTenantIsolation (tenantOf d ty) \<noteq> Some False"
    "dialect (tenantOf d ty) = d" "tenantFieldType (tenantOf d ty) = ty" for d ty
    by (simp_all add: tenantOf_def)
  have f: "''tenant_id'' \<noteq> []" by simp
  note pg = tenant_predicate_placement [where md = "tenantOf Postgres None"
      and f = "''tenant_id''" and sql = "''SELECT * FROM users''"
      and tid = "''t-123''" and ps = "[]" and i = 0, OF md(1) f md(2) absent(1)]
  note ch = tenant_predicate_placement [where md = "tenantOf Clickhouse None"
      and f = "''tenant_id''" and sql = "''SELECT * FROM users''"
      and tid = "''t-123''" and ps = "[]" and i = 0, OF md(1) f md(2) absent(1)]
  note wh = tenant_predicate_placement [where md = "tenantOf Postgres None"
      and f = "''tenant_id''" and sql = "''SELECT * FROM users WHERE active = true''"
      and tid = "''t-123''" and ps = "[]" and i = 20, OF md(1) f md(2) absent(2)]
  from pg none have 1:
    "fst (ensureTenantIsolation ''SELECT * FROM users'' [] (tenantOf Postgres None) ''t-123'')
     = ''SELECT * FROM users WHERE tenant_id = '' @ [CHR 0x27] @ ''t-123'' @ [CHR 0x27]"
    by (simp add: md)
  from ch none have 2:
    "fst (ensureTenantIsolation ''SELECT * FROM users'' [] (tenantOf Clickhouse None) ''t-123'')
     = ''SELECT * FROM users WHERE tenant_id = {tenant_id:String}''"
    by (simp add: md)
  from wh at have 3:
    "fst (ensureTenantIsolation ''SELECT * FROM users WHERE active = true'' []
            (tenantOf Postgres None) ''t-123'')
     = ''SELECT * FROM users WHERE tenant_id = '' @ [CHR 0x27] @ ''t-123'' @ [CHR 0x27]
       @ '' AND  active = true''"
    by (simp add: md)
  from 1 2 3 show ?thesis by blast
qed

lemma assignString_twice: "assignString k v (assignString k v ps) = assignString k v ps"
proof (cases "k = ''__proto__'' \<and> map_of ps k = None")
  case True
  then show ?thesis by (simp add: assignString_def)
next
  case False
  then have "assignString k v ps = AList.update k (PString v) ps"
    by (auto simp: assignString_def)
  moreover have "map_of (AList.update k (PString v) ps) k \<noteq> None"
    by (simp add: update_conv')
  ultimately show ?thesis by (auto simp: assignString_def)
qed

text \<open>
  Claim C4. Applying the tenant-isolation rewrite a second time, to the SQL and the
  parameter record the first application returned and with the same tenant id, gives
  exactly that SQL and that record again.
\<close>

theorem rewrite_idempotent:
  "(case ensureTenantIsolation sql ps md tid of
      (sql', ps') \<Rightarrow> ensureTenantIsolation sql' ps' md tid = (sql', ps'))"
proof (cases "\<not> truthy (tenantFieldName md) \<or> enforceTenantIsolation md = Some False")
  case True
  then show ?thesis by (auto simp: ensureTenantIsolation_def)
next
  case False
  define f where "f = the (tenantFieldName md)"
  define P where "P = tenantPredicate md f tid"
  show ?thesis
  proof (cases "includes_str (toLowerCase sql) (toLowerCase f)")
    case True
    with False show ?thesis
      by (simp add: ensureTenantIsolation_def f_def Let_def assignString_twice)
  next
    case no: False
    show ?thesis
    proof (cases "searchWhere None sql")
      case None
      have inc: "includes_str (toLowerCase (sql @ '' WHERE '' @ P)) (toLowerCase f)"
        using includes_rewritten [of "sql @ '' WHERE ''" md f tid "[]"] by (simp add: P_def)
      from False no None have "ensureTenantIsolation sql ps md tid
          = (sql @ '' WHERE '' @ P, assignString f tid ps)"
        by (simp add: ensureTenantIsolation_def f_def P_def Let_def)
      moreover from False inc have "ensureTenantIsolation (sql @ '' WHERE '' @ P)
            (assignString f tid ps) md tid
          = (sql @ '' WHERE '' @ P, assignString f tid ps)"
        by (simp add: ensureTenantIsolation_def f_def Let_def assignString_twice)
      ultimately show ?thesis by simp
    next
      case (Some bma)
      obtain b m a where bma: "bma = (b, m, a)" by (cases bma)
      have inc: "includes_str (toLowerCase (b @ m @ '' '' @ P @ '' AND '' @ a)) (toLowerCase f)"
        using includes_rewritten [of "b @ m @ '' ''" md f tid "'' AND '' @ a"]
        by (simp add: P_def)
      from False no Some bma have "ensureTenantIsolation sql ps md tid
          = (b @ m @ '' '' @ P @ '' AND '' @ a, assignString f tid ps)"
        by (simp add: ensureTenantIsolation_def f_def P_def Let_def)
      moreover from False inc have "ensureTenantIsolation (b @ m @ '' '' @ P @ '' AND '' @ a)
            (assignString f tid ps) md tid
          = (b @ m @ '' '' @ P @ '' AND '' @ a, assignString f tid ps)"
        by (simp add: ensureTenantIsolation_def f_def Let_def assignString_twice)
      ultimately show ?thesis by simp
    qed
  qed
qed

theorem rewrite_idempotent_witness:
  "ensureTenantIsolation ''SELECT 1'' [] relationalTenant ''t''
     = (''SELECT 1 WHERE tenant_id = '' @ [CHR 0x27] @ ''t'' @ [CHR 0x27],
        [(''tenant_id'', PString ''t'')])
   \<and> ensureTenantIsolation (''SELECT 1 WHERE tenant_id = '' @ [CHR 0x27] @ ''t'' @ [CHR 0x27])
        [(''tenant_id'', PString ''t'')] relationalTenant ''t''
     = (''SELECT 1 WHERE tenant_id = '' @ [CHR 0x27] @ ''t'' @ [CHR 0x27],
        [(''tenant_id'', PString ''t'')])"
proof -
  have once: "ensureTenantIsolation ''SELECT 1'' [] relationalTenant ''t''
     = (''SELECT 1 WHERE tenant_id = '' @ [CHR 0x27] @ ''t'' @ [CHR 0x27],
        [(''tenant_id'', PString ''t'')])"
    by code_simp
  from rewrite_idempotent [where sql = "''SELECT 1''" and ps = "[]" and md = relationalTenant
      and tid = "''t''"] once
  show ?thesis by simp
qed

text \<open>
  Claim C5. The rewrite is required to touch the caller's parameter record only in the
  columnar case in which a predicate is synthesised, and to leave it unchanged for the
  relational dialect. The source assigns \<open>params[tenantField] = tenantId\<close> before it looks
  at the SQL or the dialect: on the input of the repository's test "should apply tenant
  isolation when configured" (relational dialect, empty record) the record comes back
  with the key \<open>tenant_id\<close>, where the test expects the adapter to be called with \<open>{}\<close>.
\<close>

theorem relational_params_gain_tenant_key:
  "ensureTenantIsolation ''SELECT * FROM users'' [] relationalTenant ''tenant-123''
     = (''SELECT * FROM users WHERE tenant_id = '' @ [CHR 0x27] @ ''tenant-123'' @ [CHR 0x27],
        [(''tenant_id'', PString ''tenant-123'')])"
  by code_simp

theorem relational_params_gain_tenant_key_witness:
  "map_of (snd (ensureTenantIsolation ''SELECT * FROM users'' [] relationalTenant ''tenant-123''))
     ''tenant_id'' = Some (PString ''tenant-123'')"
  using relational_params_gain_tenant_key by simp

subsection \<open>Positional parameters\<close>

text \<open>The example of the specification: \<open>{"1": "a", "2": "b", "name": "c"}\<close>.\<close>

lemma conversion_example:
  "convertNamedToPositionalParams
     [(''1'', PString ''a''), (''2'', PString ''b''), (''name'', PString ''c'')]
     = [Value (PString ''a''), Value (PString ''b''), Value (PString ''c'')]"
  by code_simp

text \<open>
  Claim C8. The conversion is required to give, for every parameter record, the values
  of the purely numeric keys in ascending numeric order and then the values of the
  other keys in lexical order. The source reads the value of a numeric key back under
  \<open>String(Number.parseInt(key, 10))\<close>, which is another key when the key has a leading
  zero: the record \<open>{"01": "a"}\<close> converts to \<open>[undefined]\<close>, not to \<open>["a"]\<close>. The
  example of the claim, whose numeric keys are canonical numerals, converts as stated
  (\<open>conversion_example\<close>).
\<close>

theorem leading_zero_key_reads_undefined:
  "convertNamedToPositionalParams [(''01'', PString ''a'')] = [Undefined]"
  by code_simp

theorem leading_zero_key_reads_undefined_witness:
  "Value (PString ''a'') \<notin> set (convertNamedToPositionalParams [(''01'', PString ''a'')])"
  using leading_zero_key_reads_undefined by simp

subsection \<open>Anonymised rows\<close>

lemma update_fresh: "k \<notin> fst ` set al \<Longrightarrow> AList.update k v al = al @ [(k, v)]"
  by (induction al) auto

lemma maskRow_fold:
  "distinct (map fst r) \<Longrightarrow> fst ` set acc \<inter> fst ` set r = {} \<Longrightarrow>
   fold (\<lambda>(key, v) masked.
           if key = ''__proto__'' then masked else AList.update key (maskValue v) masked) r acc
     = acc @ maskEntries r"
proof (induction r arbitrary: acc)
  case Nil
  then show ?case by (simp add: maskEntries_def)
next
  case (Cons kv r)
  obtain k v where kv: "kv = (k, v)" by (cases kv)
  show ?case
  proof (cases "k = ''__proto__''")
    case True
    with Cons kv show ?thesis by (auto simp: maskEntries_def)
  next
    case False
    from Cons.prems kv have fresh: "k \<notin> fst ` set acc" by auto
    from Cons.prems kv have "fst ` set (acc @ [(k, maskValue v)]) \<inter> fst ` set r = {}"
      by auto
    moreover from Cons.prems have "distinct (map fst r)" by simp
    moreover note Cons.IH [of "acc @ [(k, maskValue v)]"]
    ultimately have "fold (\<lambda>(key, v) masked.
           if key = ''__proto__'' then masked else AList.update key (maskValue v) masked) r
           (acc @ [(k, maskValue v)]) = (acc @ [(k, maskValue v)]) @ maskEntries r"
      by blast
    with False kv fresh show ?thesis by (simp add: update_fresh maskEntries_def)
  qed
qed

lemma maskRow_entries: "distinct (map fst r) \<Longrightarrow> maskRow r = maskEntries r"
  using maskRow_fold [of r "[]"] by (simp add: maskRow_def)

lemma maskValue_tag: "maskValue v \<in> set maskTags"
  by (cases v) (simp_all add: maskValue_def typeof_def maskTags_def)

lemma maskValue_plain: "plainValue v \<Longrightarrow> maskValue v \<in> set coarseTags"
  by (cases v) (simp_all add: maskValue_def typeof_def coarseTags_def plainValue_def)

text \<open>
  Claim C9, as amended. \<open>anonymizeResults\<close> replaces every value of every row by a tag:
  \<open>"null"\<close> for \<open>null\<close>, \<open>"array"\<close> for an array, and the \<open>typeof\<close> of any other value.
  The tags are therefore among the ten of \<^const>\<open>maskTags\<close>; they are among the five
  of the specification for rows that hold only numbers, strings, booleans, arrays and
  \<open>null\<close>. (The keys of a row are distinct, as the keys of an object are.)
\<close>

theorem anonymizeResults_tags:
  assumes "\<forall>r \<in> set rs. distinct (map fst r)"
  shows "anonymizeResults (Some rs) = map maskEntries rs
    \<and> (\<forall>r \<in> set (anonymizeResults (Some rs)). \<forall>(k, tag) \<in> set r. tag \<in> set maskTags)
    \<and> ((\<forall>r \<in> set rs. \<forall>(k, v) \<in> set r. plainValue v) \<longrightarrow>
        (\<forall>r \<in> set (anonymizeResults (Some rs)). \<forall>(k, tag) \<in> set r. tag \<in> set coarseTags))"
proof -
  from assms have eq: "anonymizeResults (Some rs) = map maskEntries rs"
    by (auto simp: anonymizeResults_def maskRow_entries)
  have tags: "\<forall>r \<in> set (map maskEntries rs). \<forall>(k, tag) \<in> set r. tag \<in> set maskTags"
    by (auto simp: maskEntries_def maskValue_tag)
  have plain: "(\<forall>r \<in> set rs. \<forall>(k, v) \<in> set r. plainValue v) \<longrightarrow>
        (\<forall>r \<in> set (map maskEntries rs). \<forall>(k, tag) \<in> set r. tag \<in> set coarseTags)"
    by (auto simp: maskEntries_def intro!: maskValue_plain)
  from eq tags plain show ?thesis by simp
qed

theorem anonymizeResults_tags_witness:
  "anonymizeResults (Some [[(''id'', JNumber 1), (''name'', JNull), (''tags'', JArray [])]])
     = [[(''id'', ''number''), (''name'', ''null''), (''tags'', ''array'')]]"
proof -
  have "\<forall>r \<in> set [[(''id'', JNumber 1), (''name'', JNull), (''tags'', JArray [])]].
          distinct (map fst r)"
    by simp
  from anonymizeResults_tags [OF this] show ?thesis
    by (simp add: maskEntries_def maskValue_def typeof_def)
qed

text \<open>
  The claim as stated fails: a value that is an object, such as the \<open>Date\<close> a driver
  returns for a timestamp, gets the tag \<open>"object"\<close>, which is not one of the five.
\<close>

theorem object_value_tagged_object:
  "anonymizeResults (Some [[(''created'', JObject [])]]) = [[(''created'', ''object'')]]
   \<and> ''object'' \<notin> set coarseTags"
  by (simp add: anonymizeResults_def maskRow_def maskValue_def typeof_def coarseTags_def)

subsection \<open>The registry of attached databases\<close>

lemma default_kept:
  "truthy (defaultDatabase qe) \<Longrightarrow> defaultDatabase (attachAll calls qe) = defaultDatabase qe"
proof (induction calls arbitrary: qe)
  case Nil
  then show ?case by (simp add: attachAll_def)
next
  case (Cons c calls)
  obtain n a m where c: "c = (n, a, m)" by (cases c)
  from Cons.prems have "defaultDatabase (attachDatabase n a m qe) = defaultDatabase qe"
    by (simp add: attachDatabase_def)
  with Cons show ?case using c by (simp add: attachAll_def)
qed

text \<open>
  Claim C10, as amended. The name of the first attached database, when it is not the
  empty string, is the default and stays the default through any later attachments.
  Attaching under another name leaves the entry of a name, adapter and metadata,
  as it was; attaching under the same name again replaces both.
\<close>

theorem attach_registry:
  "(n \<noteq> [] \<longrightarrow>
      getDefaultDatabase (attachAll later (attachDatabase n a m QueryEngine_new)) = Some n)
   \<and> (n' \<noteq> n \<longrightarrow>
        map_of (databases (attachDatabase n' a' m' qe)) n = map_of (databases qe) n
        \<and> map_of (databaseMetadata (attachDatabase n' a' m' qe)) n
            = map_of (databaseMetadata qe) n)
   \<and> map_of (databases (attachDatabase n a' m' qe)) n = Some a'
   \<and> map_of (databaseMetadata (attachDatabase n a' m' qe)) n = Some m'"
proof -
  have "getDefaultDatabase (attachAll later (attachDatabase n a m QueryEngine_new)) = Some n"
    if "n \<noteq> []"
  proof -
    from that have first: "defaultDatabase (attachDatabase n a m QueryEngine_new) = Some n"
      by (simp add: attachDatabase_def QueryEngine_new_def truthy_def)
    with that have "truthy (defaultDatabase (attachDatabase n a m QueryEngine_new))"
      by (simp add: truthy_def)
    from default_kept [OF this] first show ?thesis
      by (simp add: getDefaultDatabase_def)
  qed
  then show ?thesis
    by (simp add: attachDatabase_def update_conv')
qed

theorem attach_registry_witness:
  "getDefaultDatabase
     (attachAll [(''db2'', sampleClickHouse, untenanted ''db2'' Clickhouse)]
        (attachDatabase ''db1'' samplePostgres (untenanted ''db1'' Postgres) QueryEngine_new))
     = Some ''db1''
   \<and> map_of (databaseMetadata
        (attachDatabase ''db2'' sampleClickHouse (untenanted ''db2'' Clickhouse)
           (attachDatabase ''db1'' samplePostgres (untenanted ''db1'' Postgres) QueryEngine_new)))
        ''db1''
     = Some (untenanted ''db1'' Postgres)"
proof -
  have entry: "map_of (databaseMetadata
      (attachDatabase ''db1'' samplePostgres (untenanted ''db1'' Postgres) QueryEngine_new))
      ''db1'' = Some (untenanted ''db1'' Postgres)"
    by (simp add: attachDatabase_def QueryEngine_new_def)
  from attach_registry [where n = "''db1''" and a = samplePostgres
      and m = "untenanted ''db1'' Postgres"
      and later = "[(''db2'', sampleClickHouse, untenanted ''db2'' Clickhouse)]"
      and n' = "''db2''" and a' = sampleClickHouse and m' = "untenanted ''db2'' Clickhouse"
      and qe = "attachDatabase ''db1'' samplePostgres (untenanted ''db1'' Postgres)
                  QueryEngine_new"] entry
  show ?thesis by simp
qed

text \<open>
  The claim as stated fails: the registry is not write-once per name. A second
  \<open>attachDatabase\<close> under the name \<open>db\<close> replaces the Postgres adapter by the ClickHouse one.
\<close>

theorem reattach_replaces_entry:
  "map_option getDialect
     (map_of (databases
        (attachDatabase ''db'' samplePostgres (untenanted ''db'' Postgres) QueryEngine_new))
        ''db'') = Some Postgres
   \<and> map_option getDialect
     (map_of (databases
        (attachDatabase ''db'' sampleClickHouse (untenanted ''db'' Clickhouse)
           (attachDatabase ''db'' samplePostgres (untenanted ''db'' Postgres) QueryEngine_new)))
        ''db'') = Some Clickhouse"
  by (simp add: attachDatabase_def QueryEngine_new_def samplePostgres_def sampleClickHouse_def
      postgresAdapter_def clickhouseAdapter_def truthy_def)

subsection \<open>The order of the steps of an execution\<close>

lemma postgres_execute_checked:
  "postgres_execute pa sql ps w =
     (case postgres_validateQueryTables pa sql of
        Inl e \<Rightarrow> (w, Inl e)
      | Inr _ \<Rightarrow> postgres_callClient pa sql ps w)"
  by (simp add: postgres_execute_def postgres_validateQueryTables_def)

lemma clickhouse_execute_checked:
  "clickhouse_execute ca sql ps w =
     (case clickhouse_validateQueryTables ca sql of
        Inl e \<Rightarrow> (w, Inl e)
      | Inr _ \<Rightarrow> clickhouse_callClient ca sql ps w)"
  by (simp add: clickhouse_execute_def clickhouse_validateQueryTables_def)

lemma result_eta:
  "\<lparr> res_fields = res_fields (r :: DatabaseExecutionResult), res_rows = res_rows r \<rparr> = r"
  by simp

text \<open>
  Claim C7, as amended. One \<open>validateAndExecute\<close> on an attached relational or columnar
  adapter runs, in this order: the tenant-isolation rewrite, once; the adapter's
  \<open>validate\<close>, an \<open>EXPLAIN\<close> of the rewritten SQL sent to the client; then, inside the
  adapter's \<open>execute\<close>, the allow-list validation of the rewritten SQL; then the client
  call with the rewritten SQL. Each step runs only if the one before it did not throw,
  and both calls get the parameter record as the rewrite left it.
\<close>

theorem execution_order:
  "(getDatabase (Some db) qe = Inr (postgresAdapter pa) \<longrightarrow>
      validateAndExecute qe sql ps db tid w =
        (case (case getDatabaseMetadata (Some db) qe of
                 Some md \<Rightarrow> ensureTenantIsolation sql ps md tid
               | None \<Rightarrow> (sql, ps)) of
           (finalSql, ps') \<Rightarrow>
             (case clientFn pa w (''EXPLAIN '' @ finalSql)
                     (Some (convertNamedToPositionalParams ps')) of
                (w1, Inl e) \<Rightarrow> ((w1, ps'), Inl e)
              | (w1, Inr _) \<Rightarrow>
                  (case postgres_validateQueryTables pa finalSql of
                     Inl e \<Rightarrow> ((w1, ps'), Inl e)
                   | Inr _ \<Rightarrow>
                       (case postgres_callClient pa finalSql (Some ps') w1 of
                          (w2, r) \<Rightarrow> ((w2, ps'), r))))))
   \<and> (getDatabase (Some db) qe = Inr (clickhouseAdapter ca) \<longrightarrow>
      validateAndExecute qe sql ps db tid w =
        (case (case getDatabaseMetadata (Some db) qe of
                 Some md \<Rightarrow> ensureTenantIsolation sql ps md tid
               | None \<Rightarrow> (sql, ps)) of
           (finalSql, ps') \<Rightarrow>
             (case clickhouse_query ca (''EXPLAIN '' @ finalSql) (Some (ch_defaultFormat ca))
                     (Some ps') w of
                (w1, Inl e) \<Rightarrow> ((w1, ps'), Inl e)
              | (w1, Inr _) \<Rightarrow>
                  (case clickhouse_validateQueryTables ca finalSql of
                     Inl e \<Rightarrow> ((w1, ps'), Inl e)
                   | Inr _ \<Rightarrow>
                       (case clickhouse_callClient ca finalSql (Some ps') w1 of
                          (w2, r) \<Rightarrow> ((w2, ps'), r))))))"
proof (intro conjI impI)
  assume db: "getDatabase (Some db) qe = Inr (postgresAdapter pa)"
  obtain finalSql ps' where rw:
    "(case getDatabaseMetadata (Some db) qe of
        Some md \<Rightarrow> ensureTenantIsolation sql ps md tid
      | None \<Rightarrow> (sql, ps)) = (finalSql, ps')"
    by (cases "case getDatabaseMetadata (Some db) qe of
        Some md \<Rightarrow> ensureTenantIsolation sql ps md tid
      | None \<Rightarrow> (sql, ps)")
  show "validateAndExecute qe sql ps db tid w =
        (case (case getDatabaseMetadata (Some db) qe of
                 Some md \<Rightarrow> ensureTenantIsolation sql ps md tid
               | None \<Rightarrow> (sql, ps)) of
           (finalSql, ps') \<Rightarrow>
             (case clientFn pa w (''EXPLAIN '' @ finalSql)
                     (Some (convertNamedToPositionalParams ps')) of
                (w1, Inl e) \<Rightarrow> ((w1, ps'), Inl e)
              | (w1, Inr _) \<Rightarrow>
                  (case postgres_validateQueryTables pa finalSql of
                     Inl e \<Rightarrow> ((w1, ps'), Inl e)
                   | Inr _ \<Rightarrow>
                       (case postgres_callClient pa finalSql (Some ps') w1 of
                          (w2, r) \<Rightarrow> ((w2, ps'), r)))))"
    unfolding validateAndExecute_def db rw
    by (simp add: postgresAdapter_def postgres_validate_def postgres_execute_checked
        split: prod.splits sum.splits)
next
  assume db: "getDatabase (Some db) qe = Inr (clickhouseAdapter ca)"
  obtain finalSql ps' where rw:
    "(case getDatabaseMetadata (Some db) qe of
        Some md \<Rightarrow> ensureTenantIsolation sql ps md tid
      | None \<Rightarrow> (sql, ps)) = (finalSql, ps')"
    by (cases "case getDatabaseMetadata (Some db) qe of
        Some md \<Rightarrow> ensureTenantIsolation sql ps md tid
      | None \<Rightarrow> (sql, ps)")
  show "validateAndExecute qe sql ps db tid w =
        (case (case getDatabaseMetadata (Some db) qe of
                 Some md \<Rightarrow> ensureTenantIsolation sql ps md tid
               | None \<Rightarrow> (sql, ps)) of
           (finalSql, ps') \<Rightarrow>
             (case clickhouse_query ca (''EXPLAIN '' @ finalSql) (Some (ch_defaultFormat ca))
                     (Some ps') w of
                (w1, Inl e) \<Rightarrow> ((w1, ps'), Inl e)
              | (w1, Inr _) \<Rightarrow>
                  (case clickhouse_validateQueryTables ca finalSql of
                     Inl e \<Rightarrow> ((w1, ps'), Inl e)
                   | Inr _ \<Rightarrow>
                       (case clickhouse_callClient ca finalSql (Some ps') w1 of
                          (w2, r) \<Rightarrow> ((w2, ps'), r)))))"
    unfolding validateAndExecute_def db rw
    by (simp add: clickhouseAdapter_def clickhouse_validate_def clickhouse_execute_checked
        split: prod.splits sum.splits)
qed

theorem execution_order_witness:
  "validateAndExecute usersDb ''SELECT * FROM users'' [] ''db'' ''t-1'' []
     = (([''EXPLAIN SELECT * FROM users'', ''SELECT * FROM users''], []),
        Inr \<lparr> res_fields = [''id''], res_rows = [[(''id'', JNumber 1)]] \<rparr>)"
proof -
  have db: "getDatabase (Some ''db'') usersDb = Inr (postgresAdapter usersOnly)"
    by (simp add: usersDb_def getDatabase_def attachDatabase_def QueryEngine_new_def truthy_def)
  have "validateAndExecute usersDb ''SELECT * FROM users'' [] ''db'' ''t-1'' [] =
        (case (case getDatabaseMetadata (Some ''db'') usersDb of
                 Some md \<Rightarrow> ensureTenantIsolation ''SELECT * FROM users'' [] md ''t-1''
               | None \<Rightarrow> (''SELECT * FROM users'', [])) of
           (finalSql, ps') \<Rightarrow>
             (case clientFn usersOnly [] (''EXPLAIN '' @ finalSql)
                     (Some (convertNamedToPositionalParams ps')) of
                (w1, Inl e) \<Rightarrow> ((w1, ps'), Inl e)
              | (w1, Inr _) \<Rightarrow>
                  (case postgres_validateQueryTables usersOnly finalSql of
                     Inl e \<Rightarrow> ((w1, ps'), Inl e)
                   | Inr _ \<Rightarrow>
                       (case postgres_callClient usersOnly finalSql (Some ps') w1 of
                          (w2, r) \<Rightarrow> ((w2, ps'), r)))))"
    using execution_order [where db = "''db''" and qe = usersDb and pa = usersOnly
        and sql = "''SELECT * FROM users''" and ps = "[]" and tid = "''t-1''" and w = "[]"] db
    by blast
  also have "\<dots> = (([''EXPLAIN SELECT * FROM users'', ''SELECT * FROM users''], []),
        Inr \<lparr> res_fields = [''id''], res_rows = [[(''id'', JNumber 1)]] \<rparr>)"
    by code_simp
  finally show ?thesis .
qed

text \<open>
  The claim as stated fails: allow-list validation does not come first. For a query on
  a table outside the allow-list, the \<open>EXPLAIN\<close> of \<open>validate\<close> has reached the client
  by the time \<open>execute\<close> throws the allowed-tables error.
\<close>

theorem explain_precedes_allow_list:
  "validateAndExecute usersDb ''SELECT * FROM orders'' [] ''db'' ''t-1'' []
     = (([''EXPLAIN SELECT * FROM orders''], []),
        Inl (Error (notAllowedMessage ''public.orders'')))"
  by code_simp

subsection \<open>The retry loop of \<open>ask\<close>\<close>








end
